theory Spec2Isabelle
  imports Main "HOL-Library.Sublist"
begin

section \<open>Data model\<close>

text \<open>
  Modelled from the spec: the role tag of a node, an enumeration of package \<open>pb\<close> declared
  outside the source at hand. A node is a worker, a master or the api-endpoint; the code
  names \<open>NodeType_master\<close> and \<open>NodeType_apiEndpoint\<close>.
\<close>

datatype NodeType = worker | master | apiEndpoint

text \<open>
  Modelled from the spec: the type tag of a load-balancer role, an enumeration of package
  \<open>pb\<close> declared outside the source at hand. Only the API-server type matters to the
  code; \<open>Ingress\<close> stands for any other type.
\<close>

datatype RoleType = ApiServer | Ingress

text \<open>
  The protobuf messages of package \<open>pb\<close> that \<open>kube_eleven.go\<close> reads and writes, with the
  fields it touches. Messages are taken fully populated (no nil sub-message); a
  \<open>*pb.Node\<close> is an address into the cluster: the index of its node pool and its index
  inside the pool.
\<close>

record pb_Node =
  Node_Name :: string
  Node_Public :: string
  Node_NodeType :: NodeType

record pb_Provider =
  CloudProviderName :: string
  SpecName :: string

record pb_NodePool =
  NodePool_Name :: string
  NodePool_Region :: string
  NodePool_Zone :: string
  NodePool_Provider :: pb_Provider
  NodePool_Nodes :: "pb_Node list"

record pb_ClusterInfo =
  ClusterInfo_Name :: string
  ClusterInfo_Hash :: string
  ClusterInfo_PrivateKey :: string
  ClusterInfo_NodePools :: "pb_NodePool list"

record pb_K8Scluster =
  K8s_ClusterInfo :: pb_ClusterInfo
  K8s_Kubernetes :: string
  K8s_Kubeconfig :: string

record pb_Role =
  Role_RoleType :: RoleType

record pb_DNS =
  DNS_Endpoint :: string

record pb_LBcluster =
  LB_TargetedK8S :: string
  LB_Roles :: "pb_Role list"
  LB_Dns :: pb_DNS

type_synonym NodePtr = "nat \<times> nat"

text \<open>
  Modelled from the spec: the provisioning view handed to the template (the node pools with
  their nodes, the API endpoint, the Kubernetes version and the cluster name). Its types
  \<open>NodeInfo\<close>, \<open>NodepoolInfo\<close> and \<open>templateData\<close> are declared in another file of the
  package; the fields are those the composite literals of \<open>getClusterNodes\<close> and the
  assignments of \<open>generateTemplateData\<close> set.
\<close>

record NodeInfo =
  NodeInfo_Name :: string
  NodeInfo_Node :: NodePtr

record NodepoolInfo =
  Info_NodepoolName :: string
  Info_Region :: string
  Info_Zone :: string
  Info_CloudProviderName :: string
  Info_ProviderName :: string
  Info_Nodes :: "NodeInfo list"

record templateData =
  Data_APIEndpoint :: string
  Data_KubernetesVersion :: string
  Data_ClusterName :: string
  Data_Nodepools :: "NodepoolInfo list"

text \<open>
  The receiver of the methods. Its field \<open>outputDirectory\<close> is written
  \<open>outputDirectory_field\<close>, since the constant of the same name keeps its name.
\<close>

record KubeEleven =
  outputDirectory_field :: string
  K8sCluster :: pb_K8Scluster
  LBClusters :: "pb_LBcluster list"

text \<open>Go errors: a plain error with its message, or \<open>fmt.Errorf\<close> with \<open>%w\<close>.\<close>

datatype error = Failure string | Wrapped string error

fun Error :: "error \<Rightarrow> string" where
  "Error (Failure msg) = msg"
| "Error (Wrapped msg cause) = msg"

definition Errorf_w :: "string \<Rightarrow> error \<Rightarrow> error" where
  "Errorf_w text cause = Wrapped (text @ Error cause) cause"

text \<open>The files on disk (path to contents) and the lines of the global logger.\<close>

type_synonym FileSystem = "string \<rightharpoonup> string"

record World =
  Files :: FileSystem
  Log :: "string list"

section \<open>Constants and library functions\<close>

definition generatedKubeoneManifestName :: string where
  "generatedKubeoneManifestName = ''kubeone.yaml''"

definition sshKeyFileName :: string where
  "sshKeyFileName = ''private.pem''"

definition baseDirectory :: string where
  "baseDirectory = ''services/kube-eleven/server''"

definition outputDirectory :: string where
  "outputDirectory = ''clusters''"

text \<open>\<open>strings.TrimPrefix(s, prefix)\<close>.\<close>

definition TrimPrefix :: "string \<Rightarrow> string \<Rightarrow> string" where
  "TrimPrefix s pfx = (if take (length pfx) s = pfx then drop (length pfx) s else s)"

text \<open>
  \<open>filepath.Join\<close> on a slash-separated system: the non-empty elements joined by a
  slash, then \<open>filepath.Clean\<close>. \<open>Clean\<close> drops empty and \<open>.\<close> elements, lets a \<open>..\<close>
  element cancel the element before it (or keeps it at the start of a relative path, drops it
  at the root), and turns the empty result into \<open>.\<close>.
\<close>

fun splitSlash :: "string \<Rightarrow> string \<Rightarrow> string list" where
  "splitSlash cur [] = [rev cur]"
| "splitSlash cur (c # cs) =
     (if c = CHR ''/'' then rev cur # splitSlash [] cs else splitSlash (c # cur) cs)"

fun joinSlash :: "string list \<Rightarrow> string" where
  "joinSlash [] = []"
| "joinSlash [e] = e"
| "joinSlash (e # es) = e @ ''/'' @ joinSlash es"

fun cleanElems :: "bool \<Rightarrow> string list \<Rightarrow> string list \<Rightarrow> string list" where
  "cleanElems rooted stack [] = rev stack"
| "cleanElems rooted stack (e # es) =
     (if e = [] \<or> e = ''.'' then cleanElems rooted stack es
      else if e = ''..'' then
        (case stack of
           [] \<Rightarrow> if rooted then cleanElems rooted [] es else cleanElems rooted [''..''] es
         | t # st \<Rightarrow> if t = ''..'' then cleanElems rooted (''..'' # stack) es
                     else cleanElems rooted st es)
      else cleanElems rooted (e # stack) es)"

definition Clean :: "string \<Rightarrow> string" where
  "Clean path =
     (if path = [] then ''.''
      else let rooted = (hd path = CHR ''/'');
               body = joinSlash (cleanElems rooted [] (splitSlash [] path))
           in if rooted then CHR ''/'' # body
              else if body = [] then ''.'' else body)"

definition Join :: "string list \<Rightarrow> string" where
  "Join elems =
     (let es = filter (\<lambda>e. e \<noteq> []) elems
      in if es = [] then [] else Clean (joinSlash es))"

section \<open>Node scan: getClusterNodes\<close>

text \<open>
  The inner loop over the nodes of pool \<open>p\<close>, from node index \<open>j\<close>; the state is the
  \<open>Nodes\<close> slice built so far and \<open>potentialEndpointNode\<close>.
\<close>

fun nodesLoop ::
  "string \<Rightarrow> nat \<Rightarrow> nat \<Rightarrow> pb_Node list \<Rightarrow> NodeInfo list \<times> NodePtr option
     \<Rightarrow> NodeInfo list \<times> NodePtr option" where
  "nodesLoop pfx p j [] st = st"
| "nodesLoop pfx p j (node # rest) (infos, potentialEndpointNode) =
     (let nodeName = TrimPrefix (Node_Name node) pfx;
          infos' = infos @ [\<lparr>NodeInfo_Name = nodeName, NodeInfo_Node = (p, j)\<rparr>];
          potentialEndpointNode' =
            (if Node_NodeType node = apiEndpoint then Some (p, j)
             else if Node_NodeType node = master \<and> potentialEndpointNode = None then Some (p, j)
             else potentialEndpointNode)
      in nodesLoop pfx p (Suc j) rest (infos', potentialEndpointNode'))"

fun poolsLoop ::
  "(string \<Rightarrow> string) \<Rightarrow> string \<Rightarrow> nat \<Rightarrow> pb_NodePool list
     \<Rightarrow> NodepoolInfo list \<times> NodePtr option \<Rightarrow> NodepoolInfo list \<times> NodePtr option" where
  "poolsLoop sanitise pfx p [] st = st"
| "poolsLoop sanitise pfx p (nodepool # rest) (nodepoolInfos, potentialEndpointNode) =
     (let (nodes, potentialEndpointNode') =
            nodesLoop pfx p 0 (NodePool_Nodes nodepool) ([], potentialEndpointNode);
          nodepoolInfo =
            \<lparr>Info_NodepoolName = NodePool_Name nodepool,
             Info_Region = sanitise (NodePool_Region nodepool),
             Info_Zone = sanitise (NodePool_Zone nodepool),
             Info_CloudProviderName = sanitise (CloudProviderName (NodePool_Provider nodepool)),
             Info_ProviderName = sanitise (SpecName (NodePool_Provider nodepool)),
             Info_Nodes = nodes\<rparr>
      in poolsLoop sanitise pfx (Suc p) rest (nodepoolInfos @ [nodepoolInfo], potentialEndpointNode'))"

definition clusterName :: "KubeEleven \<Rightarrow> string" where
  "clusterName k = ClusterInfo_Name (K8s_ClusterInfo (K8sCluster k))"

definition clusterHash :: "KubeEleven \<Rightarrow> string" where
  "clusterHash k = ClusterInfo_Hash (K8s_ClusterInfo (K8sCluster k))"

definition nodePools :: "KubeEleven \<Rightarrow> pb_NodePool list" where
  "nodePools k = ClusterInfo_NodePools (K8s_ClusterInfo (K8sCluster k))"

definition getClusterNodes ::
  "(string \<Rightarrow> string) \<Rightarrow> KubeEleven \<Rightarrow> NodepoolInfo list \<times> NodePtr option" where
  "getClusterNodes sanitise k =
     poolsLoop sanitise (clusterName k @ ''-'' @ clusterHash k @ ''-'') 0 (nodePools k) ([], None)"

section \<open>Endpoint resolution: findAPIEndpoint\<close>

text \<open>The loop over the roles of one load balancer: true when it reaches the return.\<close>

fun rolesLoop :: "pb_Role list \<Rightarrow> bool" where
  "rolesLoop [] = False"
| "rolesLoop (role # rest) = (if Role_RoleType role = ApiServer then True else rolesLoop rest)"

fun lbLoop :: "string \<Rightarrow> pb_LBcluster list \<Rightarrow> string option" where
  "lbLoop name [] = None"
| "lbLoop name (lbCluster # rest) =
     (if LB_TargetedK8S lbCluster = name \<and> rolesLoop (LB_Roles lbCluster)
      then Some (DNS_Endpoint (LB_Dns lbCluster))
      else lbLoop name rest)"

definition nodeAt :: "KubeEleven \<Rightarrow> NodePtr \<Rightarrow> pb_Node" where
  "nodeAt k ptr = NodePool_Nodes (nodePools k ! fst ptr) ! snd ptr"

definition setNodeTypeIn :: "pb_NodePool list \<Rightarrow> NodePtr \<Rightarrow> NodeType \<Rightarrow> pb_NodePool list" where
  "setNodeTypeIn pools ptr t =
     pools[fst ptr := (pools ! fst ptr)
       \<lparr>NodePool_Nodes := (NodePool_Nodes (pools ! fst ptr))
          [snd ptr := (NodePool_Nodes (pools ! fst ptr) ! snd ptr)\<lparr>Node_NodeType := t\<rparr>]\<rparr>]"

definition setNodeType :: "KubeEleven \<Rightarrow> NodePtr \<Rightarrow> NodeType \<Rightarrow> KubeEleven" where
  "setNodeType k ptr t =
     k\<lparr>K8sCluster := (K8sCluster k)
        \<lparr>K8s_ClusterInfo := (K8s_ClusterInfo (K8sCluster k))
           \<lparr>ClusterInfo_NodePools := setNodeTypeIn (nodePools k) ptr t\<rparr>\<rparr>\<rparr>"

definition findAPIEndpoint ::
  "KubeEleven \<Rightarrow> NodePtr option \<Rightarrow> World \<Rightarrow> string \<times> KubeEleven \<times> World" where
  "findAPIEndpoint k potentialEndpointNode w =
     (case lbLoop (clusterName k) (LBClusters k) of
        Some endpoint \<Rightarrow> (endpoint, k, w)
      | None \<Rightarrow>
          (case potentialEndpointNode of
             Some ptr \<Rightarrow> (Node_Public (nodeAt k ptr), setNodeType k ptr apiEndpoint, w)
           | None \<Rightarrow>
               ([], k,
                w\<lparr>Log := Log w @
                   [''Cluster '' @ clusterName k @ '' does not have any API endpoint specified'']\<rparr>)))"

definition generateTemplateData ::
  "(string \<Rightarrow> string) \<Rightarrow> KubeEleven \<Rightarrow> World \<Rightarrow> templateData \<times> KubeEleven \<times> World" where
  "generateTemplateData sanitise k w =
     (let (nodepools, potentialEndpointNode) = getClusterNodes sanitise k;
          (endpoint, k', w') = findAPIEndpoint k potentialEndpointNode w
      in (\<lparr>Data_APIEndpoint = endpoint,
           Data_KubernetesVersion = K8s_Kubernetes (K8sCluster k'),
           Data_ClusterName = clusterName k',
           Data_Nodepools = nodepools\<rparr>, k', w'))"

section \<open>The build: generateFiles and BuildCluster\<close>

text \<open>
  The collaborators outside this file, as parameters of the model: the string sanitiser
  and the template of the same service, \<open>templateUtils\<close>, \<open>utils.CreateKeyFile\<close>, the
  \<open>kubeone\<close> wrapper, and the outcomes of \<open>os.WriteFile\<close> and \<open>os.RemoveAll\<close>. The
  template engine sees the cluster, since the view model points at its nodes.
\<close>

record Env =
  sanitiseString :: "string \<Rightarrow> string"
  KubeOneTemplate :: string
  LoadTemplate :: "string \<Rightarrow> error + string"
  Generate ::
    "string \<Rightarrow> string \<Rightarrow> string \<Rightarrow> templateData \<Rightarrow> pb_K8Scluster \<Rightarrow> FileSystem
       \<Rightarrow> error + FileSystem"
  CreateKeyFile :: "string \<Rightarrow> string \<Rightarrow> string \<Rightarrow> FileSystem \<Rightarrow> error + FileSystem"
  WriteFile_error :: "string \<Rightarrow> string \<Rightarrow> FileSystem \<Rightarrow> error option"
  Apply :: "string \<Rightarrow> string \<Rightarrow> FileSystem \<Rightarrow> error option \<times> FileSystem"
  RemoveAll_failure :: "string \<Rightarrow> FileSystem \<Rightarrow> (error \<times> (string \<Rightarrow> bool)) option"

text \<open>\<open>os.WriteFile\<close>: the file holds the data afterwards, unless the system refuses.\<close>

definition WriteFile :: "Env \<Rightarrow> string \<Rightarrow> string \<Rightarrow> FileSystem \<Rightarrow> error + FileSystem" where
  "WriteFile env path content fs =
     (case WriteFile_error env path content fs of
        Some err \<Rightarrow> Inl err
      | None \<Rightarrow> Inr (fs(path \<mapsto> content)))"

text \<open>
  \<open>os.RemoveAll\<close> removes the path and everything below it; it removes everything it
  can and returns the first error it meets. When it fails the environment gives the error
  and tells which files could not be removed: those stay, the others below the path are
  gone.
\<close>

definition RemoveAll :: "Env \<Rightarrow> string \<Rightarrow> FileSystem \<Rightarrow> error option \<times> FileSystem" where
  "RemoveAll env path fs =
     (case RemoveAll_failure env path fs of
        Some (err, kept) \<Rightarrow>
          (Some err,
           (\<lambda>f. if (f = path \<or> prefix (path @ ''/'') f) \<and> \<not> kept f then None else fs f))
      | None \<Rightarrow> (None, (\<lambda>f. if f = path \<or> prefix (path @ ''/'') f then None else fs f)))"

text \<open>
  Modelled from the spec: \<open>readKubeconfigFromFile\<close>, a function of this package that is
  not in the source at hand. The spec's CredentialExtractor reads the kubeconfig file and
  returns its raw contents; a missing file is a hard error, an empty but present file is
  not an error.
\<close>

definition readKubeconfigFromFile :: "string \<Rightarrow> FileSystem \<Rightarrow> error + string" where
  "readKubeconfigFromFile path fs =
     (case fs path of
        None \<Rightarrow> Inl (Failure (''open '' @ path @ '': no such file or directory''))
      | Some content \<Rightarrow> Inr content)"

definition kubeconfigFilePath :: "KubeEleven \<Rightarrow> string" where
  "kubeconfigFilePath k = Join [outputDirectory_field k, clusterName k @ ''-kubeconfig'']"

definition generateFiles :: "Env \<Rightarrow> KubeEleven \<Rightarrow> World \<Rightarrow> error option \<times> KubeEleven \<times> World" where
  "generateFiles env k w =
     (case LoadTemplate env (KubeOneTemplate env) of
        Inl err \<Rightarrow> (Some (Errorf_w ''error while loading a kubeone template : '' err), k, w)
      | Inr template \<Rightarrow>
          (let (templateParameters, k1, w1) = generateTemplateData (sanitiseString env) k w
           in case Generate env template (outputDirectory_field k1) generatedKubeoneManifestName
                     templateParameters (K8sCluster k1) (Files w1) of
                Inl err \<Rightarrow>
                  (Some (Errorf_w (''error while generating '' @ generatedKubeoneManifestName
                                     @ '' from kubeone template : '') err), k1, w1)
              | Inr fs2 \<Rightarrow>
                  (case CreateKeyFile env (ClusterInfo_PrivateKey (K8s_ClusterInfo (K8sCluster k1)))
                          (outputDirectory_field k1) sshKeyFileName fs2 of
                     Inl err \<Rightarrow>
                       (Some (Errorf_w ''error while creating SSH key file: '' err),
                        k1, w1\<lparr>Files := fs2\<rparr>)
                   | Inr fs3 \<Rightarrow>
                       (case WriteFile env (kubeconfigFilePath k1)
                               (K8s_Kubeconfig (K8sCluster k1)) fs3 of
                          Inl err \<Rightarrow>
                            (Some (Errorf_w (''error while writing cluster-kubeconfig file in ''
                                               @ outputDirectory_field k1 @ '': '') err),
                             k1, w1\<lparr>Files := fs3\<rparr>)
                        | Inr fs4 \<Rightarrow> (None, k1, w1\<lparr>Files := fs4\<rparr>)))))"

definition clusterID :: "KubeEleven \<Rightarrow> string" where
  "clusterID k = clusterName k @ ''-'' @ clusterHash k"

definition workingDirectory :: "KubeEleven \<Rightarrow> string" where
  "workingDirectory k = Join [baseDirectory, outputDirectory, clusterID k]"

definition BuildCluster :: "Env \<Rightarrow> KubeEleven \<Rightarrow> World \<Rightarrow> error option \<times> KubeEleven \<times> World" where
  \<open>BuildCluster env k w =
     (let k0 = k\<lparr>outputDirectory_field := workingDirectory k\<rparr>
      in case generateFiles env k0 w of
           (Some err, k1, w1) \<Rightarrow>
             (Some (Errorf_w (''error while generating files for '' @ clusterName k1 @ '' : '') err),
              k1, w1)
         | (None, k1, w1) \<Rightarrow>
             (case Apply env (outputDirectory_field k1) (clusterID k) (Files w1) of
                (Some err, fs2) \<Rightarrow>
                  (Some (Errorf_w (''error while running "kubeone apply" in ''
                                     @ outputDirectory_field k1 @ '' : '') err),
                   k1, w1\<lparr>Files := fs2\<rparr>)
              | (None, fs2) \<Rightarrow>
                  (case readKubeconfigFromFile (kubeconfigFilePath k1) fs2 of
                     Inl err \<Rightarrow>
                       (Some (Errorf_w (''error while reading cluster-config in ''
                                          @ outputDirectory_field k1 @ '' : '') err),
                        k1, w1\<lparr>Files := fs2\<rparr>)
                   | Inr kubeconfigAsString \<Rightarrow>
                       (let k2 = (if length kubeconfigAsString > 0
                                  then k1\<lparr>K8sCluster := (K8sCluster k1)
                                            \<lparr>K8s_Kubeconfig := kubeconfigAsString\<rparr>\<rparr>
                                  else k1)
                        in case RemoveAll env (outputDirectory_field k2) fs2 of
                             (Some err, fs3) \<Rightarrow>
                               (Some (Errorf_w (''error while removing files from ''
                                                  @ outputDirectory_field k2 @ '': '') err),
                                k2, w1\<lparr>Files := fs3\<rparr>)
                           | (None, fs3) \<Rightarrow> (None, k2, w1\<lparr>Files := fs3\<rparr>)))))\<close>

section \<open>Notions used in the statements\<close>

text \<open>
  A load balancer qualifies when it targets the cluster and carries a role of type
  API-server; the nodes of a cluster are read in pool-then-node order.
\<close>

definition isApiServerLB :: "string \<Rightarrow> pb_LBcluster \<Rightarrow> bool" where
  "isApiServerLB name lb \<longleftrightarrow>
     LB_TargetedK8S lb = name \<and> (\<exists>role\<in>set (LB_Roles lb). Role_RoleType role = ApiServer)"

text \<open>
  The \<open>potentialEndpointNode\<close> component of the node loop and of the pool loop of
  \<open>getClusterNodes\<close>.
\<close>

fun scanNodes :: "nat \<Rightarrow> nat \<Rightarrow> pb_Node list \<Rightarrow> NodePtr option \<Rightarrow> NodePtr option" where
  "scanNodes p j [] c = c"
| "scanNodes p j (node # rest) c =
     scanNodes p (Suc j) rest
       (if Node_NodeType node = apiEndpoint then Some (p, j)
        else if Node_NodeType node = master \<and> c = None then Some (p, j)
        else c)"

fun scanPools :: "nat \<Rightarrow> pb_NodePool list \<Rightarrow> NodePtr option \<Rightarrow> NodePtr option" where
  "scanPools p [] c = c"
| "scanPools p (pool # rest) c = scanPools (Suc p) rest (scanNodes p 0 (NodePool_Nodes pool) c)"

definition nodeNamePrefix :: "KubeEleven \<Rightarrow> string" where
  "nodeNamePrefix k = clusterName k @ ''-'' @ clusterHash k @ ''-''"

definition allNodes :: "KubeEleven \<Rightarrow> pb_Node list" where
  "allNodes k = concat (map NodePool_Nodes (nodePools k))"

definition apiEndpointCount :: "KubeEleven \<Rightarrow> nat" where
  "apiEndpointCount k = length (filter (\<lambda>n. Node_NodeType n = apiEndpoint) (allNodes k))"

definition withNodePools :: "KubeEleven \<Rightarrow> pb_NodePool list \<Rightarrow> KubeEleven" where
  "withNodePools k pools =
     k\<lparr>K8sCluster := (K8sCluster k)
        \<lparr>K8s_ClusterInfo := (K8s_ClusterInfo (K8sCluster k))\<lparr>ClusterInfo_NodePools := pools\<rparr>\<rparr>\<rparr>"

definition noEndpointMessage :: "KubeEleven \<Rightarrow> string" where
  "noEndpointMessage k =
     ''Cluster '' @ clusterName k @ '' does not have any API endpoint specified''"

section \<open>Example inputs\<close>

definition exNode :: "string \<Rightarrow> string \<Rightarrow> NodeType \<Rightarrow> pb_Node" where
  "exNode name addr t = \<lparr>Node_Name = name, Node_Public = addr, Node_NodeType = t\<rparr>"

definition exPool :: "string \<Rightarrow> pb_Node list \<Rightarrow> pb_NodePool" where
  "exPool name nodes =
     \<lparr>NodePool_Name = name, NodePool_Region = ''eu-west-2'', NodePool_Zone = ''eu-west-2a'',
      NodePool_Provider = \<lparr>CloudProviderName = ''aws'', SpecName = ''aws-1''\<rparr>,
      NodePool_Nodes = nodes\<rparr>"

definition exLB :: "string \<Rightarrow> RoleType list \<Rightarrow> string \<Rightarrow> pb_LBcluster" where
  "exLB target roles endpoint =
     \<lparr>LB_TargetedK8S = target, LB_Roles = map (\<lambda>t. \<lparr>Role_RoleType = t\<rparr>) roles,
      LB_Dns = \<lparr>DNS_Endpoint = endpoint\<rparr>\<rparr>"

definition exKube ::
  "string \<Rightarrow> string \<Rightarrow> string \<Rightarrow> pb_NodePool list \<Rightarrow> pb_LBcluster list \<Rightarrow> KubeEleven" where
  "exKube name hash kubeconfig pools lbs =
     \<lparr>outputDirectory_field = [],
      K8sCluster =
        \<lparr>K8s_ClusterInfo =
           \<lparr>ClusterInfo_Name = name, ClusterInfo_Hash = hash, ClusterInfo_PrivateKey = ''key'',
            ClusterInfo_NodePools = pools\<rparr>,
         K8s_Kubernetes = ''v1.24.0'', K8s_Kubeconfig = kubeconfig\<rparr>,
      LBClusters = lbs\<rparr>"

definition exWorld :: World where
  "exWorld = \<lparr>Files = Map.empty, Log = []\<rparr>"

text \<open>
  An environment whose template engine and key writer succeed; the tool ends with the
  given error (if any) after changing the files by \<open>tool\<close>, and \<open>os.RemoveAll\<close> ends
  with the given error (if any), leaving the files it is told to keep.
\<close>

definition exEnv ::
  "error option \<Rightarrow> (FileSystem \<Rightarrow> FileSystem) \<Rightarrow> (error \<times> (string \<Rightarrow> bool)) option \<Rightarrow> Env" where
  "exEnv applyError tool removeFailure =
     \<lparr>sanitiseString = (\<lambda>s. s),
      KubeOneTemplate = ''template'',
      LoadTemplate = (\<lambda>t. Inr t),
      Generate = (\<lambda>tpl dir file d c fs. Inr (fs(dir @ ''/'' @ file \<mapsto> Data_APIEndpoint d))),
      CreateKeyFile = (\<lambda>key dir file fs. Inr (fs(dir @ ''/'' @ file \<mapsto> key))),
      WriteFile_error = (\<lambda>path content fs. None),
      Apply = (\<lambda>dir ident fs. (applyError, tool fs)),
      RemoveAll_failure = (\<lambda>path fs. removeFailure)\<rparr>"

text \<open>Scenario A of the spec, with a worker and a second master added.\<close>

definition exMasters :: KubeEleven where
  "exMasters =
     exKube ''c1'' ''h1'' ''old'' 
       [exPool ''compute'' [exNode ''c1-h1-compute-1'' ''10.0.0.1'' worker],
        exPool ''control'' [exNode ''c1-h1-control-1'' ''1.2.3.4'' master,
                            exNode ''c1-h1-control-2'' ''1.2.3.5'' master]] []"

text \<open>Two nodes already tagged api-endpoint, after a master.\<close>

definition exTwoEndpoints :: KubeEleven where
  "exTwoEndpoints =
     exKube ''c1'' ''h1'' ''old''
       [exPool ''control'' [exNode ''c1-h1-control-1'' ''1.2.3.4'' master,
                            exNode ''c1-h1-control-2'' ''1.2.3.5'' apiEndpoint,
                            exNode ''c1-h1-control-3'' ''1.2.3.6'' apiEndpoint,
                            exNode ''c1-h1-control-4'' ''1.2.3.7'' master]] []"

text \<open>Scenario B of the spec, with a second qualifying load balancer behind the first.\<close>

definition exBalanced :: KubeEleven where
  "exBalanced =
     exKube ''c1'' ''h1'' ''old''
       [exPool ''control'' [exNode ''c1-h1-control-1'' ''1.2.3.4'' master]]
       [exLB ''other'' [ApiServer] ''other.example.com'',
        exLB ''c1'' [Ingress, ApiServer] ''lb.example.com'',
        exLB ''c1'' [ApiServer] ''lb2.example.com'']"

text \<open>A cluster of workers only.\<close>

definition exWorkers :: KubeEleven where
  "exWorkers =
     exKube ''c1'' ''h1'' ''old''
       [exPool ''compute'' [exNode ''c1-h1-compute-1'' ''10.0.0.1'' worker]] []"

text \<open>
  Four runs: the tool fails; the tool leaves an empty kubeconfig; the tool leaves a new
  kubeconfig and the clean-up fails on the key file, which stays; the tool leaves a new
  kubeconfig and the clean-up succeeds.
\<close>

definition exToolFails :: Env where
  "exToolFails = exEnv (Some (Failure ''exit status 1'')) (\<lambda>fs. fs) None"

definition exToolEmpty :: Env where
  "exToolEmpty =
     exEnv None (\<lambda>fs. fs(''services/kube-eleven/server/clusters/c1-h1/c1-kubeconfig'' \<mapsto> [])) None"

definition exRemoveFails :: Env where
  "exRemoveFails =
     exEnv None (\<lambda>fs. fs(''services/kube-eleven/server/clusters/c1-h1/c1-kubeconfig'' \<mapsto> ''new''))
       (Some (Failure ''permission denied'',
              \<lambda>f. f = ''services/kube-eleven/server/clusters/c1-h1/private.pem''))"

definition exToolNew :: Env where
  "exToolNew =
     exEnv None (\<lambda>fs. fs(''services/kube-eleven/server/clusters/c1-h1/c1-kubeconfig'' \<mapsto> ''new''))
       None"

text \<open>A run in which the template engine fails.\<close>

definition exTemplateFails :: Env where
  "exTemplateFails =
     (exEnv None (\<lambda>fs. fs) None)
       \<lparr>Generate := (\<lambda>tpl dir file d c fs. Inl (Failure ''template: unexpected EOF''))\<rparr>"

section \<open>Evaluating the examples\<close>

lemmas ex_defs = exNode_def exPool_def exLB_def exKube_def exWorld_def
  clusterName_def clusterHash_def nodePools_def

section \<open>Load balancers\<close>

lemma rolesLoop_iff: "rolesLoop rs \<longleftrightarrow> (\<exists>role\<in>set rs. Role_RoleType role = ApiServer)"
  by (induction rs) auto

lemma lbLoop_find:
  "lbLoop name lbs =
     map_option (\<lambda>lb. DNS_Endpoint (LB_Dns lb)) (List.find (isApiServerLB name) lbs)"
  by (induction lbs) (auto simp: isApiServerLB_def rolesLoop_iff)

lemma find_first_exists: "\<exists>x\<in>set xs. P x \<Longrightarrow> \<exists>x. List.find P xs = Some x"
  by (induction xs) auto

lemma lbLoop_None:
  "\<forall>lb\<in>set lbs. \<not> isApiServerLB name lb \<Longrightarrow> lbLoop name lbs = None"
  by (induction lbs) (auto simp: isApiServerLB_def rolesLoop_iff)

lemma findAPIEndpoint_balanced:
  assumes "List.find (isApiServerLB (clusterName k)) (LBClusters k) = Some lb"
  shows "findAPIEndpoint k cand w = (DNS_Endpoint (LB_Dns lb), k, w)"
proof -
  from assms have "lbLoop (clusterName k) (LBClusters k) = Some (DNS_Endpoint (LB_Dns lb))"
    by (simp add: lbLoop_find)
  then show ?thesis by (simp add: findAPIEndpoint_def)
qed

text \<open>
  Claim C1. When some attached load balancer targets the cluster and carries an API-server
  role, \<open>findAPIEndpoint\<close> returns the DNS endpoint of the first such load balancer in
  input order, whatever candidate node the scan found, and leaves the cluster (hence every
  node role) and the log as they were.
\<close>

theorem C1_load_balancer_endpoint:
  assumes "\<exists>lb\<in>set (LBClusters k). isApiServerLB (clusterName k) lb"
  shows "\<exists>lb. List.find (isApiServerLB (clusterName k)) (LBClusters k) = Some lb
           \<and> findAPIEndpoint k cand w = (DNS_Endpoint (LB_Dns lb), k, w)"
proof -
  from find_first_exists [OF assms]
  obtain lb where f: "List.find (isApiServerLB (clusterName k)) (LBClusters k) = Some lb" ..
  then have "findAPIEndpoint k cand w = (DNS_Endpoint (LB_Dns lb), k, w)"
    by (rule findAPIEndpoint_balanced)
  with f have "List.find (isApiServerLB (clusterName k)) (LBClusters k) = Some lb
           \<and> findAPIEndpoint k cand w = (DNS_Endpoint (LB_Dns lb), k, w)" by (rule conjI)
  then show ?thesis by (rule exI)
qed

theorem C1_load_balancer_endpoint_witness:
  "(\<exists>lb\<in>set (LBClusters exBalanced). isApiServerLB (clusterName exBalanced) lb)
   \<and> findAPIEndpoint exBalanced (snd (getClusterNodes (\<lambda>s. s) exBalanced)) exWorld
       = (''lb.example.com'', exBalanced, exWorld)"
proof -
  have h: "\<exists>lb\<in>set (LBClusters exBalanced). isApiServerLB (clusterName exBalanced) lb"
    by (simp add: exBalanced_def ex_defs isApiServerLB_def)
  have f: "List.find (isApiServerLB (clusterName exBalanced)) (LBClusters exBalanced)
             = Some (exLB ''c1'' [Ingress, ApiServer] ''lb.example.com'')"
    by (simp add: exBalanced_def ex_defs isApiServerLB_def)
  from C1_load_balancer_endpoint [OF h, of "snd (getClusterNodes (\<lambda>s. s) exBalanced)" exWorld] h
  show ?thesis unfolding f by (simp add: exLB_def)
qed

section \<open>Display names\<close>

lemma names_nodesLoop:
  "map NodeInfo_Name (fst (nodesLoop pfx p j nodes (infos, c))) =
     map NodeInfo_Name infos @ map (\<lambda>n. TrimPrefix (Node_Name n) pfx) nodes"
  by (induction nodes arbitrary: j infos c) (simp_all add: Let_def)

lemma names_poolsLoop:
  "map (\<lambda>i. map NodeInfo_Name (Info_Nodes i)) (fst (poolsLoop san pfx p pools (infos, c))) =
     map (\<lambda>i. map NodeInfo_Name (Info_Nodes i)) infos
       @ map (\<lambda>pool. map (\<lambda>n. TrimPrefix (Node_Name n) pfx) (NodePool_Nodes pool)) pools"
proof (induction pools arbitrary: p infos c)
  case Nil
  then show ?case by simp
next
  case (Cons pool rest)
  obtain ns c' where r: "nodesLoop pfx p 0 (NodePool_Nodes pool) ([], c) = (ns, c')"
    by (cases "nodesLoop pfx p 0 (NodePool_Nodes pool) ([], c)")
  have "map NodeInfo_Name ns = map (\<lambda>n. TrimPrefix (Node_Name n) pfx) (NodePool_Nodes pool)"
    using names_nodesLoop [of pfx p 0 "NodePool_Nodes pool" "[]" c] by (simp add: r)
  then show ?case by (simp add: r Cons.IH)
qed

lemma TrimPrefix_strip: "TrimPrefix (pfx @ rest) pfx = rest"
  by (simp add: TrimPrefix_def)

lemma TrimPrefix_keep:
  assumes "\<not> prefix pfx s"
  shows "TrimPrefix s pfx = s"
proof -
  have "take (length pfx) s \<noteq> pfx"
  proof
    assume "take (length pfx) s = pfx"
    then have "s = pfx @ drop (length pfx) s" by (metis append_take_drop_id)
    then have "prefix pfx s" by (metis prefixI)
    with assms show False by simp
  qed
  then show ?thesis by (simp add: TrimPrefix_def)
qed

text \<open>
  Claim C9. The display name that \<open>getClusterNodes\<close> gives every node is its full name
  with the prefix \<open><clusterName>-<clusterHash>-\<close> trimmed: a name that starts with the
  prefix loses it, a name that does not start with it is unchanged, and deriving again from
  a stripped name that lacks the prefix returns it unchanged.
\<close>

theorem C9_display_name:
  "map (\<lambda>i. map NodeInfo_Name (Info_Nodes i)) (fst (getClusterNodes san k)) =
     map (\<lambda>pool. map (\<lambda>n. TrimPrefix (Node_Name n) (nodeNamePrefix k)) (NodePool_Nodes pool))
       (nodePools k)
   \<and> TrimPrefix (nodeNamePrefix k @ rest) (nodeNamePrefix k) = rest
   \<and> (\<not> prefix (nodeNamePrefix k) s \<longrightarrow> TrimPrefix s (nodeNamePrefix k) = s)
   \<and> (\<not> prefix (nodeNamePrefix k) (TrimPrefix s (nodeNamePrefix k)) \<longrightarrow>
        TrimPrefix (TrimPrefix s (nodeNamePrefix k)) (nodeNamePrefix k)
          = TrimPrefix s (nodeNamePrefix k))"
proof -
  have 1: "map (\<lambda>i. map NodeInfo_Name (Info_Nodes i)) (fst (getClusterNodes san k)) =
     map (\<lambda>pool. map (\<lambda>n. TrimPrefix (Node_Name n) (nodeNamePrefix k)) (NodePool_Nodes pool))
       (nodePools k)"
    using names_poolsLoop [of san "nodeNamePrefix k" 0 "nodePools k" "[]" None]
    by (simp add: getClusterNodes_def nodeNamePrefix_def)
  have 2: "TrimPrefix (nodeNamePrefix k @ rest) (nodeNamePrefix k) = rest"
    by (rule TrimPrefix_strip)
  have 3: "\<not> prefix (nodeNamePrefix k) s \<longrightarrow> TrimPrefix s (nodeNamePrefix k) = s"
    by (simp add: TrimPrefix_keep)
  have 4: "\<not> prefix (nodeNamePrefix k) (TrimPrefix s (nodeNamePrefix k)) \<longrightarrow>
        TrimPrefix (TrimPrefix s (nodeNamePrefix k)) (nodeNamePrefix k)
          = TrimPrefix s (nodeNamePrefix k)"
    by (simp add: TrimPrefix_keep)
  from 1 2 3 4 show ?thesis by simp
qed

theorem C9_display_name_witness:
  "\<not> prefix ''c1-h1-'' ''control-1''
   \<and> \<not> prefix ''c1-h1-'' (TrimPrefix ''c1-h1-control-1'' ''c1-h1-'')
   \<and> TrimPrefix ''c1-h1-control-1'' ''c1-h1-'' = ''control-1''
   \<and> TrimPrefix ''control-1'' ''c1-h1-'' = ''control-1''
   \<and> TrimPrefix (TrimPrefix ''c1-h1-control-1'' ''c1-h1-'') ''c1-h1-'' = ''control-1''
   \<and> map (\<lambda>i. map NodeInfo_Name (Info_Nodes i)) (fst (getClusterNodes (\<lambda>s. s) exMasters))
       = [[''compute-1''], [''control-1'', ''control-2'']]"
proof -
  have p: "nodeNamePrefix exMasters = ''c1-h1-''"
    by (simp add: nodeNamePrefix_def exMasters_def ex_defs)
  have a: "\<not> prefix ''c1-h1-'' ''control-1''" by simp
  have b: "TrimPrefix ''c1-h1-control-1'' ''c1-h1-'' = ''control-1''"
    by (simp add: TrimPrefix_def)
  have n: "nodePools exMasters =
      [exPool ''compute'' [exNode ''c1-h1-compute-1'' ''10.0.0.1'' worker],
       exPool ''control'' [exNode ''c1-h1-control-1'' ''1.2.3.4'' master,
                           exNode ''c1-h1-control-2'' ''1.2.3.5'' master]]"
    by (simp add: exMasters_def exKube_def nodePools_def)
  from C9_display_name [of "\<lambda>s. s" exMasters "''control-1''" "''control-1''"]
       C9_display_name [of "\<lambda>s. s" exMasters "''control-1''" "''c1-h1-control-1''"]
  show ?thesis unfolding p n using a b by (simp add: exNode_def exPool_def TrimPrefix_def)
qed

section \<open>The node scan\<close>

lemma snd_nodesLoop: "snd (nodesLoop pfx p j nodes (infos, c)) = scanNodes p j nodes c"
  by (induction nodes arbitrary: j infos c) (simp_all add: Let_def)

lemma snd_poolsLoop: "snd (poolsLoop san pfx p pools (infos, c)) = scanPools p pools c"
proof (induction pools arbitrary: p infos c)
  case Nil
  then show ?case by simp
next
  case (Cons pool rest)
  obtain ns c' where r: "nodesLoop pfx p 0 (NodePool_Nodes pool) ([], c) = (ns, c')"
    by (cases "nodesLoop pfx p 0 (NodePool_Nodes pool) ([], c)")
  have "c' = scanNodes p 0 (NodePool_Nodes pool) c"
    using snd_nodesLoop [of pfx p 0 "NodePool_Nodes pool" "[]" c] by (simp add: r)
  then show ?case by (simp add: r Cons.IH)
qed

lemma snd_getClusterNodes: "snd (getClusterNodes san k) = scanPools 0 (nodePools k) None"
  by (simp add: getClusterNodes_def snd_poolsLoop)

lemma scanNodes_append:
  "scanNodes p j (xs @ ys) c = scanNodes p (j + length xs) ys (scanNodes p j xs c)"
  by (induction xs arbitrary: j c) simp_all

lemma scanPools_append:
  "scanPools p (xs @ ys) c = scanPools (p + length xs) ys (scanPools p xs c)"
  by (induction xs arbitrary: p c) simp_all

lemma scanNodes_keep:
  "\<forall>n\<in>set nodes. Node_NodeType n \<noteq> apiEndpoint \<Longrightarrow> scanNodes p j nodes (Some x) = Some x"
  by (induction nodes arbitrary: j) simp_all

lemma scanNodes_idle:
  "\<forall>n\<in>set nodes. Node_NodeType n \<noteq> apiEndpoint \<and> Node_NodeType n \<noteq> master
     \<Longrightarrow> scanNodes p j nodes c = c"
  by (induction nodes arbitrary: j) simp_all

lemma scanPools_keep:
  "\<forall>q\<in>set pools. \<forall>n\<in>set (NodePool_Nodes q). Node_NodeType n \<noteq> apiEndpoint
     \<Longrightarrow> scanPools p pools (Some x) = Some x"
  by (induction pools arbitrary: p) (simp_all add: scanNodes_keep)

lemma scanPools_idle:
  "\<forall>q\<in>set pools. \<forall>n\<in>set (NodePool_Nodes q).
      Node_NodeType n \<noteq> apiEndpoint \<and> Node_NodeType n \<noteq> master
     \<Longrightarrow> scanPools p pools c = c"
  by (induction pools arbitrary: p) (simp_all add: scanNodes_idle)

lemma scanNodes_endpoint:
  assumes "Node_NodeType e = apiEndpoint"
    and "\<forall>n\<in>set post. Node_NodeType n \<noteq> apiEndpoint"
  shows "scanNodes p j (pre @ e # post) c = Some (p, j + length pre)"
proof -
  have "scanNodes p j (pre @ e # post) c
          = scanNodes p (j + length pre) (e # post) (scanNodes p j pre c)"
    by (rule scanNodes_append)
  also have "\<dots> = scanNodes p (Suc (j + length pre)) post (Some (p, j + length pre))"
    using assms(1) by simp
  also have "\<dots> = Some (p, j + length pre)"
    using assms(2) by (rule scanNodes_keep)
  finally show ?thesis .
qed

lemma scanNodes_master:
  assumes "Node_NodeType m = master"
    and "\<forall>n\<in>set pre. Node_NodeType n \<noteq> apiEndpoint \<and> Node_NodeType n \<noteq> master"
    and "\<forall>n\<in>set post. Node_NodeType n \<noteq> apiEndpoint"
  shows "scanNodes p j (pre @ m # post) None = Some (p, j + length pre)"
proof -
  have "scanNodes p j (pre @ m # post) None
          = scanNodes p (j + length pre) (m # post) (scanNodes p j pre None)"
    by (rule scanNodes_append)
  also have "scanNodes p j pre None = None"
    using assms(2) by (rule scanNodes_idle)
  also have "scanNodes p (j + length pre) (m # post) None
               = scanNodes p (Suc (j + length pre)) post (Some (p, j + length pre))"
    using assms(1) by simp
  also have "\<dots> = Some (p, j + length pre)"
    using assms(3) by (rule scanNodes_keep)
  finally show ?thesis .
qed

lemma scanPools_endpoint:
  assumes "NodePool_Nodes pool = pre @ e # post"
    and "Node_NodeType e = apiEndpoint"
    and "\<forall>n\<in>set post. Node_NodeType n \<noteq> apiEndpoint"
    and "\<forall>q\<in>set P2. \<forall>n\<in>set (NodePool_Nodes q). Node_NodeType n \<noteq> apiEndpoint"
  shows "scanPools 0 (P1 @ pool # P2) c = Some (length P1, length pre)"
proof -
  have "scanPools 0 (P1 @ pool # P2) c
          = scanPools (length P1) (pool # P2) (scanPools 0 P1 c)"
    using scanPools_append [of 0 P1 "pool # P2" c] by simp
  also have "\<dots> = scanPools (Suc (length P1)) P2 (Some (length P1, length pre))"
    using scanNodes_endpoint [OF assms(2) assms(3), of "length P1" 0 pre "scanPools 0 P1 c"]
    by (simp add: assms(1))
  also have "\<dots> = Some (length P1, length pre)"
    using assms(4) by (rule scanPools_keep)
  finally show ?thesis .
qed

lemma scanPools_master:
  assumes "NodePool_Nodes pool = pre @ m # post"
    and "Node_NodeType m = master"
    and "\<forall>q\<in>set P1. \<forall>n\<in>set (NodePool_Nodes q).
           Node_NodeType n \<noteq> apiEndpoint \<and> Node_NodeType n \<noteq> master"
    and "\<forall>n\<in>set pre. Node_NodeType n \<noteq> apiEndpoint \<and> Node_NodeType n \<noteq> master"
    and "\<forall>n\<in>set post. Node_NodeType n \<noteq> apiEndpoint"
    and "\<forall>q\<in>set P2. \<forall>n\<in>set (NodePool_Nodes q). Node_NodeType n \<noteq> apiEndpoint"
  shows "scanPools 0 (P1 @ pool # P2) None = Some (length P1, length pre)"
proof -
  have "scanPools 0 (P1 @ pool # P2) None
          = scanPools (length P1) (pool # P2) (scanPools 0 P1 None)"
    using scanPools_append [of 0 P1 "pool # P2" None] by simp
  also have "scanPools 0 P1 None = None"
    using assms(3) by (rule scanPools_idle)
  also have "scanPools (length P1) (pool # P2) None
               = scanPools (Suc (length P1)) P2 (Some (length P1, length pre))"
    using scanNodes_master [OF assms(2) assms(4) assms(5), of "length P1" 0]
    by (simp add: assms(1))
  also have "\<dots> = Some (length P1, length pre)"
    using assms(6) by (rule scanPools_keep)
  finally show ?thesis .
qed

lemma nodePools_withNodePools [simp]: "nodePools (withNodePools k ps) = ps"
  by (simp add: nodePools_def withNodePools_def)

lemma clusterName_withNodePools [simp]: "clusterName (withNodePools k ps) = clusterName k"
  by (simp add: clusterName_def withNodePools_def)

lemma clusterHash_withNodePools [simp]: "clusterHash (withNodePools k ps) = clusterHash k"
  by (simp add: clusterHash_def withNodePools_def)

lemma LBClusters_withNodePools [simp]: "LBClusters (withNodePools k ps) = LBClusters k"
  by (simp add: withNodePools_def)

lemma Kubeconfig_withNodePools [simp]:
  "K8s_Kubeconfig (K8sCluster (withNodePools k ps)) = K8s_Kubeconfig (K8sCluster k)"
  by (simp add: withNodePools_def)

lemma outputDirectory_withNodePools [simp]:
  "outputDirectory_field (withNodePools k ps) = outputDirectory_field k"
  by (simp add: withNodePools_def)

lemma withNodePools_same: "withNodePools k (nodePools k) = k"
  by (simp add: withNodePools_def nodePools_def)

lemma setNodeType_withNodePools:
  "setNodeType k ptr t = withNodePools k (setNodeTypeIn (nodePools k) ptr t)"
  by (simp add: setNodeType_def withNodePools_def)

lemma setNodeTypeIn_split:
  assumes "NodePool_Nodes pool = pre @ n # post"
  shows "setNodeTypeIn (P1 @ pool # P2) (length P1, length pre) t
           = P1 @ pool\<lparr>NodePool_Nodes := pre @ n\<lparr>Node_NodeType := t\<rparr> # post\<rparr> # P2"
  by (simp add: setNodeTypeIn_def assms)

lemma nodeAt_split:
  assumes "nodePools k = P1 @ pool # P2" and "NodePool_Nodes pool = pre @ n # post"
  shows "nodeAt k (length P1, length pre) = n"
  by (simp add: nodeAt_def assms)

lemma Node_type_same: "Node_NodeType n = t \<Longrightarrow> n\<lparr>Node_NodeType := t\<rparr> = n"
  by (cases n) simp

lemma NodePool_nodes_same: "NodePool_Nodes q = ns \<Longrightarrow> q\<lparr>NodePool_Nodes := ns\<rparr> = q"
  by (cases q) simp

lemma resolve_endpoint_node:
  assumes noLB: "\<forall>lb\<in>set (LBClusters k). \<not> isApiServerLB (clusterName k) lb"
    and pools: "nodePools k = P1 @ pool # P2"
    and nodes: "NodePool_Nodes pool = pre @ e # post"
    and e: "Node_NodeType e = apiEndpoint"
    and post: "\<forall>n\<in>set post. Node_NodeType n \<noteq> apiEndpoint"
    and P2: "\<forall>q\<in>set P2. \<forall>n\<in>set (NodePool_Nodes q). Node_NodeType n \<noteq> apiEndpoint"
  shows "snd (getClusterNodes san k) = Some (length P1, length pre)"
    and "findAPIEndpoint k (snd (getClusterNodes san k)) w = (Node_Public e, k, w)"
proof -
  show c: "snd (getClusterNodes san k) = Some (length P1, length pre)"
    using scanPools_endpoint [OF nodes e post P2] by (simp add: snd_getClusterNodes pools)
  have lb: "lbLoop (clusterName k) (LBClusters k) = None"
    using noLB by (rule lbLoop_None)
  have at: "nodeAt k (length P1, length pre) = e"
    using pools nodes by (rule nodeAt_split)
  have "setNodeTypeIn (nodePools k) (length P1, length pre) apiEndpoint = nodePools k"
    unfolding pools setNodeTypeIn_split [OF nodes]
    by (simp add: Node_type_same [OF e] NodePool_nodes_same [OF nodes])
  then have "setNodeType k (length P1, length pre) apiEndpoint = k"
    by (simp add: setNodeType_withNodePools withNodePools_same)
  then show "findAPIEndpoint k (snd (getClusterNodes san k)) w = (Node_Public e, k, w)"
    by (simp add: findAPIEndpoint_def lb c at)
qed

lemma resolve_first_master:
  assumes noLB: "\<forall>lb\<in>set (LBClusters k). \<not> isApiServerLB (clusterName k) lb"
    and pools: "nodePools k = P1 @ pool # P2"
    and nodes: "NodePool_Nodes pool = pre @ m # post"
    and m: "Node_NodeType m = master"
    and P1: "\<forall>q\<in>set P1. \<forall>n\<in>set (NodePool_Nodes q).
               Node_NodeType n \<noteq> apiEndpoint \<and> Node_NodeType n \<noteq> master"
    and pre: "\<forall>n\<in>set pre. Node_NodeType n \<noteq> apiEndpoint \<and> Node_NodeType n \<noteq> master"
    and post: "\<forall>n\<in>set post. Node_NodeType n \<noteq> apiEndpoint"
    and P2: "\<forall>q\<in>set P2. \<forall>n\<in>set (NodePool_Nodes q). Node_NodeType n \<noteq> apiEndpoint"
  shows "snd (getClusterNodes san k) = Some (length P1, length pre)"
    and "findAPIEndpoint k (snd (getClusterNodes san k)) w =
           (Node_Public m,
            withNodePools k
              (P1 @ pool\<lparr>NodePool_Nodes := pre @ m\<lparr>Node_NodeType := apiEndpoint\<rparr> # post\<rparr> # P2),
            w)"
proof -
  show c: "snd (getClusterNodes san k) = Some (length P1, length pre)"
    using scanPools_master [OF nodes m P1 pre post P2] by (simp add: snd_getClusterNodes pools)
  have lb: "lbLoop (clusterName k) (LBClusters k) = None"
    using noLB by (rule lbLoop_None)
  have at: "nodeAt k (length P1, length pre) = m"
    using pools nodes by (rule nodeAt_split)
  have "setNodeType k (length P1, length pre) apiEndpoint =
          withNodePools k
            (P1 @ pool\<lparr>NodePool_Nodes := pre @ m\<lparr>Node_NodeType := apiEndpoint\<rparr> # post\<rparr> # P2)"
    by (simp add: setNodeType_withNodePools pools setNodeTypeIn_split [OF nodes])
  then show "findAPIEndpoint k (snd (getClusterNodes san k)) w =
           (Node_Public m,
            withNodePools k
              (P1 @ pool\<lparr>NodePool_Nodes := pre @ m\<lparr>Node_NodeType := apiEndpoint\<rparr> # post\<rparr> # P2),
            w)"
    by (simp add: findAPIEndpoint_def lb c at)
qed

lemma resolve_no_candidate:
  assumes noLB: "\<forall>lb\<in>set (LBClusters k). \<not> isApiServerLB (clusterName k) lb"
    and none: "\<forall>n\<in>set (allNodes k). Node_NodeType n \<noteq> apiEndpoint \<and> Node_NodeType n \<noteq> master"
  shows "snd (getClusterNodes san k) = None"
    and "findAPIEndpoint k (snd (getClusterNodes san k)) w
           = ([], k, w\<lparr>Log := Log w @ [noEndpointMessage k]\<rparr>)"
proof -
  have "\<forall>q\<in>set (nodePools k). \<forall>n\<in>set (NodePool_Nodes q).
          Node_NodeType n \<noteq> apiEndpoint \<and> Node_NodeType n \<noteq> master"
    using none by (simp add: allNodes_def)
  then show c: "snd (getClusterNodes san k) = None"
    by (simp add: snd_getClusterNodes scanPools_idle)
  have lb: "lbLoop (clusterName k) (LBClusters k) = None"
    using noLB by (rule lbLoop_None)
  show "findAPIEndpoint k (snd (getClusterNodes san k)) w
           = ([], k, w\<lparr>Log := Log w @ [noEndpointMessage k]\<rparr>)"
    by (simp add: findAPIEndpoint_def lb c noEndpointMessage_def)
qed

lemma last_node_split:
  assumes "\<exists>n\<in>set (concat (map NodePool_Nodes pools)). P n"
  shows "\<exists>P1 pool P2 pre e post.
           pools = P1 @ pool # P2 \<and> NodePool_Nodes pool = pre @ e # post \<and> P e
           \<and> (\<forall>n\<in>set post. \<not> P n) \<and> (\<forall>q\<in>set P2. \<forall>n\<in>set (NodePool_Nodes q). \<not> P n)"
proof -
  from assms have "\<exists>q\<in>set pools. \<exists>n\<in>set (NodePool_Nodes q). P n" by auto
  from split_list_last_prop [OF this]
  obtain P1 pool P2 where 1: "pools = P1 @ pool # P2"
    and 2: "\<exists>n\<in>set (NodePool_Nodes pool). P n"
    and 3: "\<forall>q\<in>set P2. \<not> (\<exists>n\<in>set (NodePool_Nodes q). P n)" by blast
  from split_list_last_prop [OF 2]
  obtain pre e post where 4: "NodePool_Nodes pool = pre @ e # post" and 5: "P e"
    and 6: "\<forall>n\<in>set post. \<not> P n" by blast
  from 1 3 4 5 6 show ?thesis by blast
qed

lemma first_node_split:
  assumes "\<exists>n\<in>set (concat (map NodePool_Nodes pools)). P n"
  shows "\<exists>P1 pool P2 pre e post.
           pools = P1 @ pool # P2 \<and> NodePool_Nodes pool = pre @ e # post \<and> P e
           \<and> (\<forall>n\<in>set pre. \<not> P n) \<and> (\<forall>q\<in>set P1. \<forall>n\<in>set (NodePool_Nodes q). \<not> P n)"
proof -
  from assms have "\<exists>q\<in>set pools. \<exists>n\<in>set (NodePool_Nodes q). P n" by auto
  from split_list_first_prop [OF this]
  obtain P1 pool P2 where 1: "pools = P1 @ pool # P2"
    and 2: "\<exists>n\<in>set (NodePool_Nodes pool). P n"
    and 3: "\<forall>q\<in>set P1. \<not> (\<exists>n\<in>set (NodePool_Nodes q). P n)" by blast
  from split_list_first_prop [OF 2]
  obtain pre e post where 4: "NodePool_Nodes pool = pre @ e # post" and 5: "P e"
    and 6: "\<forall>n\<in>set pre. \<not> P n" by blast
  from 1 3 4 5 6 show ?thesis by blast
qed

lemma ball_concat_map:
  "(\<forall>n\<in>set (concat (map f xs)). P n) \<longleftrightarrow> (\<forall>q\<in>set xs. \<forall>n\<in>set (f q). P n)"
  by auto

lemma bex_concat_map:
  "(\<exists>n\<in>set (concat (map f xs)). P n) \<longleftrightarrow> (\<exists>q\<in>set xs. \<exists>n\<in>set (f q). P n)"
  by auto

lemma allNodes_split:
  assumes "nodePools k = P1 @ pool # P2" and "NodePool_Nodes pool = pre @ n # post"
  shows "allNodes k = concat (map NodePool_Nodes P1) @ pre @ n # post @ concat (map NodePool_Nodes P2)"
  by (simp add: allNodes_def assms)

section \<open>Resolution through the nodes\<close>

text \<open>
  Claim C2. With no qualifying load balancer and no node tagged api-endpoint, let \<open>m\<close> be
  the first master in pool-then-node order (no master in the pools before its pool nor
  before it in its pool). Resolution returns the public address of \<open>m\<close> and the cluster in
  which exactly that node is tagged api-endpoint; resolving the resulting cluster again
  returns the same address and leaves it unchanged.
\<close>

theorem C2_first_master_promoted:
  assumes noLB: "\<forall>lb\<in>set (LBClusters k). \<not> isApiServerLB (clusterName k) lb"
    and noApi: "\<forall>n\<in>set (allNodes k). Node_NodeType n \<noteq> apiEndpoint"
    and pools: "nodePools k = poolsBefore @ pool # poolsAfter"
    and nodes: "NodePool_Nodes pool = nodesBefore @ m # nodesAfter"
    and m: "Node_NodeType m = master"
    and first: "\<forall>n\<in>set (concat (map NodePool_Nodes poolsBefore) @ nodesBefore).
                  Node_NodeType n \<noteq> master"
  shows "let k' = withNodePools k
                    (poolsBefore
                     @ pool\<lparr>NodePool_Nodes :=
                              nodesBefore @ m\<lparr>Node_NodeType := apiEndpoint\<rparr> # nodesAfter\<rparr>
                     # poolsAfter)
         in findAPIEndpoint k (snd (getClusterNodes san k)) w = (Node_Public m, k', w)
            \<and> findAPIEndpoint k' (snd (getClusterNodes san k')) w = (Node_Public m, k', w)"
proof -
  let ?m = "m\<lparr>Node_NodeType := apiEndpoint\<rparr>"
  let ?pool = "pool\<lparr>NodePool_Nodes := nodesBefore @ ?m # nodesAfter\<rparr>"
  let ?k = "withNodePools k (poolsBefore @ ?pool # poolsAfter)"
  note all = allNodes_split [OF pools nodes]
  have P1: "\<forall>q\<in>set poolsBefore. \<forall>n\<in>set (NodePool_Nodes q).
              Node_NodeType n \<noteq> apiEndpoint \<and> Node_NodeType n \<noteq> master"
    using noApi first unfolding all by auto
  have pre: "\<forall>n\<in>set nodesBefore. Node_NodeType n \<noteq> apiEndpoint \<and> Node_NodeType n \<noteq> master"
    using noApi first unfolding all by auto
  have post: "\<forall>n\<in>set nodesAfter. Node_NodeType n \<noteq> apiEndpoint"
    using noApi unfolding all by auto
  have P2: "\<forall>q\<in>set poolsAfter. \<forall>n\<in>set (NodePool_Nodes q). Node_NodeType n \<noteq> apiEndpoint"
    using noApi unfolding all by auto
  have 1: "findAPIEndpoint k (snd (getClusterNodes san k)) w = (Node_Public m, ?k, w)"
    using noLB pools nodes m P1 pre post P2 by (rule resolve_first_master(2))
  have noLB': "\<forall>lb\<in>set (LBClusters ?k). \<not> isApiServerLB (clusterName ?k) lb"
    using noLB by simp
  have pools': "nodePools ?k = poolsBefore @ ?pool # poolsAfter" by simp
  have nodes': "NodePool_Nodes ?pool = nodesBefore @ ?m # nodesAfter" by simp
  have m': "Node_NodeType ?m = apiEndpoint" by simp
  have "findAPIEndpoint ?k (snd (getClusterNodes san ?k)) w = (Node_Public ?m, ?k, w)"
    using noLB' pools' nodes' m' post P2 by (rule resolve_endpoint_node(2))
  then have 2: "findAPIEndpoint ?k (snd (getClusterNodes san ?k)) w = (Node_Public m, ?k, w)"
    by simp
  from 1 2 show ?thesis by (simp add: Let_def)
qed

theorem C2_first_master_promoted_witness:
  "findAPIEndpoint exMasters (snd (getClusterNodes (\<lambda>s. s) exMasters)) exWorld =
     (''1.2.3.4'',
      exKube ''c1'' ''h1'' ''old''
        [exPool ''compute'' [exNode ''c1-h1-compute-1'' ''10.0.0.1'' worker],
         exPool ''control'' [exNode ''c1-h1-control-1'' ''1.2.3.4'' apiEndpoint,
                             exNode ''c1-h1-control-2'' ''1.2.3.5'' master]] [],
      exWorld)
   \<and> findAPIEndpoint
        (exKube ''c1'' ''h1'' ''old''
          [exPool ''compute'' [exNode ''c1-h1-compute-1'' ''10.0.0.1'' worker],
           exPool ''control'' [exNode ''c1-h1-control-1'' ''1.2.3.4'' apiEndpoint,
                               exNode ''c1-h1-control-2'' ''1.2.3.5'' master]] [])
        (snd (getClusterNodes (\<lambda>s. s)
          (exKube ''c1'' ''h1'' ''old''
            [exPool ''compute'' [exNode ''c1-h1-compute-1'' ''10.0.0.1'' worker],
             exPool ''control'' [exNode ''c1-h1-control-1'' ''1.2.3.4'' apiEndpoint,
                                 exNode ''c1-h1-control-2'' ''1.2.3.5'' master]] []))) exWorld =
     (''1.2.3.4'',
      exKube ''c1'' ''h1'' ''old''
        [exPool ''compute'' [exNode ''c1-h1-compute-1'' ''10.0.0.1'' worker],
         exPool ''control'' [exNode ''c1-h1-control-1'' ''1.2.3.4'' apiEndpoint,
                             exNode ''c1-h1-control-2'' ''1.2.3.5'' master]] [],
      exWorld)"
proof -
  have noLB: "\<forall>lb\<in>set (LBClusters exMasters). \<not> isApiServerLB (clusterName exMasters) lb"
    by (simp add: exMasters_def exKube_def)
  have noApi: "\<forall>n\<in>set (allNodes exMasters). Node_NodeType n \<noteq> apiEndpoint"
    by (simp add: exMasters_def allNodes_def ex_defs)
  have pools: "nodePools exMasters =
      [exPool ''compute'' [exNode ''c1-h1-compute-1'' ''10.0.0.1'' worker]]
      @ exPool ''control'' [exNode ''c1-h1-control-1'' ''1.2.3.4'' master,
                            exNode ''c1-h1-control-2'' ''1.2.3.5'' master] # []"
    by (simp add: exMasters_def exKube_def nodePools_def)
  have nodes: "NodePool_Nodes (exPool ''control'' [exNode ''c1-h1-control-1'' ''1.2.3.4'' master,
                            exNode ''c1-h1-control-2'' ''1.2.3.5'' master])
      = [] @ exNode ''c1-h1-control-1'' ''1.2.3.4'' master
           # [exNode ''c1-h1-control-2'' ''1.2.3.5'' master]"
    by (simp add: exPool_def)
  have m: "Node_NodeType (exNode ''c1-h1-control-1'' ''1.2.3.4'' master) = master"
    by (simp add: exNode_def)
  have first: "\<forall>n\<in>set (concat (map NodePool_Nodes
        [exPool ''compute'' [exNode ''c1-h1-compute-1'' ''10.0.0.1'' worker]]) @ []).
      Node_NodeType n \<noteq> master"
    by (simp add: exPool_def exNode_def)
  have k': "withNodePools exMasters
       ([exPool ''compute'' [exNode ''c1-h1-compute-1'' ''10.0.0.1'' worker]]
        @ (exPool ''control'' [exNode ''c1-h1-control-1'' ''1.2.3.4'' master,
                            exNode ''c1-h1-control-2'' ''1.2.3.5'' master])
           \<lparr>NodePool_Nodes := [] @ (exNode ''c1-h1-control-1'' ''1.2.3.4'' master)
                   \<lparr>Node_NodeType := apiEndpoint\<rparr>
                 # [exNode ''c1-h1-control-2'' ''1.2.3.5'' master]\<rparr> # [])
      = exKube ''c1'' ''h1'' ''old''
        [exPool ''compute'' [exNode ''c1-h1-compute-1'' ''10.0.0.1'' worker],
         exPool ''control'' [exNode ''c1-h1-control-1'' ''1.2.3.4'' apiEndpoint,
                             exNode ''c1-h1-control-2'' ''1.2.3.5'' master]] []"
    by (simp add: withNodePools_def exMasters_def exKube_def exPool_def exNode_def)
  have pub: "Node_Public (exNode ''c1-h1-control-1'' ''1.2.3.4'' master) = ''1.2.3.4''"
    by (simp add: exNode_def)
  from C2_first_master_promoted [OF noLB noApi pools nodes m first, of "\<lambda>s. s" exWorld]
  show ?thesis unfolding Let_def k' pub .
qed

text \<open>
  Claim C3, amended. With no qualifying load balancer, let \<open>e\<close> be the last node tagged
  api-endpoint in pool-then-node order. The scan ends with \<open>e\<close> as candidate, resolution
  returns the public address of \<open>e\<close> and changes nothing. In the scan a node tagged
  api-endpoint becomes the candidate whatever the candidate was, and only such a node
  replaces a candidate; a master becomes the candidate when there is none.
\<close>

theorem C3_last_endpoint_node:
  assumes noLB: "\<forall>lb\<in>set (LBClusters k). \<not> isApiServerLB (clusterName k) lb"
    and pools: "nodePools k = poolsBefore @ pool # poolsAfter"
    and nodes: "NodePool_Nodes pool = nodesBefore @ e # nodesAfter"
    and e: "Node_NodeType e = apiEndpoint"
    and last: "\<forall>n\<in>set (nodesAfter @ concat (map NodePool_Nodes poolsAfter)).
                 Node_NodeType n \<noteq> apiEndpoint"
  shows "snd (getClusterNodes san k) = Some (length poolsBefore, length nodesBefore)
         \<and> findAPIEndpoint k (snd (getClusterNodes san k)) w = (Node_Public e, k, w)
         \<and> (\<forall>pfx p j infos c. snd (nodesLoop pfx p j [e] (infos, c)) = Some (p, j))
         \<and> (\<forall>pfx p j infos x n. Node_NodeType n \<noteq> apiEndpoint \<longrightarrow>
               snd (nodesLoop pfx p j [n] (infos, Some x)) = Some x)
         \<and> (\<forall>pfx p j infos n. Node_NodeType n = master \<longrightarrow>
               snd (nodesLoop pfx p j [n] (infos, None)) = Some (p, j))"
proof -
  have post: "\<forall>n\<in>set nodesAfter. Node_NodeType n \<noteq> apiEndpoint"
    using last by auto
  have P2: "\<forall>q\<in>set poolsAfter. \<forall>n\<in>set (NodePool_Nodes q). Node_NodeType n \<noteq> apiEndpoint"
    using last by auto
  have 1: "snd (getClusterNodes san k) = Some (length poolsBefore, length nodesBefore)"
    using noLB pools nodes e post P2 by (rule resolve_endpoint_node(1))
  have 2: "findAPIEndpoint k (snd (getClusterNodes san k)) w = (Node_Public e, k, w)"
    using noLB pools nodes e post P2 by (rule resolve_endpoint_node(2))
  have 3: "\<forall>pfx p j infos c. snd (nodesLoop pfx p j [e] (infos, c)) = Some (p, j)"
    using e by (simp add: snd_nodesLoop)
  have 4: "\<forall>pfx p j infos x n. Node_NodeType n \<noteq> apiEndpoint \<longrightarrow>
               snd (nodesLoop pfx p j [n] (infos, Some x)) = Some x"
    by (simp add: snd_nodesLoop)
  have 5: "\<forall>pfx p j infos n. Node_NodeType n = master \<longrightarrow>
               snd (nodesLoop pfx p j [n] (infos, None)) = Some (p, j)"
    by (simp add: snd_nodesLoop)
  from 1 2 3 4 5 show ?thesis by (intro conjI)
qed

theorem C3_last_endpoint_node_witness:
  "snd (getClusterNodes (\<lambda>s. s) exTwoEndpoints) = Some (0, 2)
   \<and> findAPIEndpoint exTwoEndpoints (snd (getClusterNodes (\<lambda>s. s) exTwoEndpoints)) exWorld
       = (''1.2.3.6'', exTwoEndpoints, exWorld)"
proof -
  have noLB: "\<forall>lb\<in>set (LBClusters exTwoEndpoints). \<not> isApiServerLB (clusterName exTwoEndpoints) lb"
    by (simp add: exTwoEndpoints_def exKube_def)
  have pools: "nodePools exTwoEndpoints =
      [] @ exPool ''control'' [exNode ''c1-h1-control-1'' ''1.2.3.4'' master,
                            exNode ''c1-h1-control-2'' ''1.2.3.5'' apiEndpoint,
                            exNode ''c1-h1-control-3'' ''1.2.3.6'' apiEndpoint,
                            exNode ''c1-h1-control-4'' ''1.2.3.7'' master] # []"
    by (simp add: exTwoEndpoints_def exKube_def nodePools_def)
  have nodes: "NodePool_Nodes (exPool ''control'' [exNode ''c1-h1-control-1'' ''1.2.3.4'' master,
                            exNode ''c1-h1-control-2'' ''1.2.3.5'' apiEndpoint,
                            exNode ''c1-h1-control-3'' ''1.2.3.6'' apiEndpoint,
                            exNode ''c1-h1-control-4'' ''1.2.3.7'' master])
      = [exNode ''c1-h1-control-1'' ''1.2.3.4'' master,
         exNode ''c1-h1-control-2'' ''1.2.3.5'' apiEndpoint]
        @ exNode ''c1-h1-control-3'' ''1.2.3.6'' apiEndpoint
        # [exNode ''c1-h1-control-4'' ''1.2.3.7'' master]"
    by (simp add: exPool_def)
  have e: "Node_NodeType (exNode ''c1-h1-control-3'' ''1.2.3.6'' apiEndpoint) = apiEndpoint"
    by (simp add: exNode_def)
  have last: "\<forall>n\<in>set ([exNode ''c1-h1-control-4'' ''1.2.3.7'' master]
                          @ concat (map NodePool_Nodes [])). Node_NodeType n \<noteq> apiEndpoint"
    by (simp add: exNode_def)
  have pub: "Node_Public (exNode ''c1-h1-control-3'' ''1.2.3.6'' apiEndpoint) = ''1.2.3.6''"
    by (simp add: exNode_def)
  note t = C3_last_endpoint_node [OF noLB pools nodes e last, of "\<lambda>s. s" exWorld, unfolded pub]
  from t [THEN conjunct1]
  have a: "snd (getClusterNodes (\<lambda>s. s) exTwoEndpoints) = Some (0, 2)" by simp
  note b = t [THEN conjunct2, THEN conjunct1]
  from a b show ?thesis by (rule conjI)
qed

text \<open>
  Claim C3 as stated fails when two nodes are tagged api-endpoint: the first of them is the
  candidate right after it is read, the second one is the candidate at the end of the scan,
  and the address returned is the second one's.
\<close>

theorem C3_first_endpoint_replaced:
  "LBClusters exTwoEndpoints = []
   \<and> allNodes exTwoEndpoints ! 1 = exNode ''c1-h1-control-2'' ''1.2.3.5'' apiEndpoint
   \<and> snd (nodesLoop ''c1-h1-'' 0 0 (take 2 (allNodes exTwoEndpoints)) ([], None)) = Some (0, 1)
   \<and> snd (getClusterNodes (\<lambda>s. s) exTwoEndpoints) = Some (0, 2)
   \<and> fst (findAPIEndpoint exTwoEndpoints (snd (getClusterNodes (\<lambda>s. s) exTwoEndpoints)) exWorld)
       = ''1.2.3.6''"
  by (simp add: exTwoEndpoints_def allNodes_def ex_defs getClusterNodes_def findAPIEndpoint_def
        nodeAt_def TrimPrefix_def)

lemma count_unchanged_by_load_balancer:
  assumes "\<exists>lb\<in>set (LBClusters k). isApiServerLB (clusterName k) lb"
  shows "fst (snd (findAPIEndpoint k cand w)) = k"
proof -
  from find_first_exists [OF assms]
  obtain lb where "List.find (isApiServerLB (clusterName k)) (LBClusters k) = Some lb" ..
  then show ?thesis by (simp add: findAPIEndpoint_balanced)
qed

lemma apiEndpointCount_zero:
  "apiEndpointCount k = 0 \<longleftrightarrow> (\<forall>n\<in>set (allNodes k). Node_NodeType n \<noteq> apiEndpoint)"
  by (simp add: apiEndpointCount_def filter_empty_conv)

lemma resolved_count:
  "apiEndpointCount (fst (snd (findAPIEndpoint k (snd (getClusterNodes san k)) w))) =
     (if apiEndpointCount k = 0
         \<and> (\<forall>lb\<in>set (LBClusters k). \<not> isApiServerLB (clusterName k) lb)
         \<and> (\<exists>n\<in>set (allNodes k). Node_NodeType n = master)
      then 1 else apiEndpointCount k)"
proof (cases "\<exists>lb\<in>set (LBClusters k). isApiServerLB (clusterName k) lb")
  case True
  then show ?thesis by (simp add: count_unchanged_by_load_balancer)
next
  case False
  then have noLB: "\<forall>lb\<in>set (LBClusters k). \<not> isApiServerLB (clusterName k) lb" by simp
  show ?thesis
  proof (cases "\<exists>n\<in>set (concat (map NodePool_Nodes (nodePools k))). Node_NodeType n = apiEndpoint")
    case True
    from last_node_split [OF True]
    obtain P1 pool P2 pre e post where pools: "nodePools k = P1 @ pool # P2"
      and nodes: "NodePool_Nodes pool = pre @ e # post" and e: "Node_NodeType e = apiEndpoint"
      and post: "\<forall>n\<in>set post. Node_NodeType n \<noteq> apiEndpoint"
      and P2: "\<forall>q\<in>set P2. \<forall>n\<in>set (NodePool_Nodes q). Node_NodeType n \<noteq> apiEndpoint"
      by blast
    have "findAPIEndpoint k (snd (getClusterNodes san k)) w = (Node_Public e, k, w)"
      using noLB pools nodes e post P2 by (rule resolve_endpoint_node(2))
    moreover have "apiEndpointCount k \<noteq> 0"
      using True by (simp add: apiEndpointCount_zero allNodes_def)
    ultimately show ?thesis by simp
  next
    case noApi: False
    then have zero: "apiEndpointCount k = 0"
      by (simp add: apiEndpointCount_zero allNodes_def)
    show ?thesis
    proof (cases "\<exists>n\<in>set (concat (map NodePool_Nodes (nodePools k))). Node_NodeType n = master")
      case True
      from first_node_split [OF True]
      obtain P1 pool P2 pre m post where pools: "nodePools k = P1 @ pool # P2"
        and nodes: "NodePool_Nodes pool = pre @ m # post" and m: "Node_NodeType m = master"
        and pre0: "\<forall>n\<in>set pre. Node_NodeType n \<noteq> master"
        and P10: "\<forall>q\<in>set P1. \<forall>n\<in>set (NodePool_Nodes q). Node_NodeType n \<noteq> master"
        by blast
      from noApi have all: "\<forall>q\<in>set (P1 @ pool # P2). \<forall>n\<in>set (NodePool_Nodes q).
                               Node_NodeType n \<noteq> apiEndpoint"
        unfolding pools by auto
      have P1: "\<forall>q\<in>set P1. \<forall>n\<in>set (NodePool_Nodes q).
              Node_NodeType n \<noteq> apiEndpoint \<and> Node_NodeType n \<noteq> master"
        using all P10 by auto
      have pre: "\<forall>n\<in>set pre. Node_NodeType n \<noteq> apiEndpoint \<and> Node_NodeType n \<noteq> master"
        using all pre0 by (auto simp: nodes)
      have post: "\<forall>n\<in>set post. Node_NodeType n \<noteq> apiEndpoint"
        using all by (auto simp: nodes)
      have P2: "\<forall>q\<in>set P2. \<forall>n\<in>set (NodePool_Nodes q). Node_NodeType n \<noteq> apiEndpoint"
        using all by auto
      let ?k = "withNodePools k
            (P1 @ pool\<lparr>NodePool_Nodes := pre @ m\<lparr>Node_NodeType := apiEndpoint\<rparr> # post\<rparr> # P2)"
      have r: "findAPIEndpoint k (snd (getClusterNodes san k)) w = (Node_Public m, ?k, w)"
        using noLB pools nodes m P1 pre post P2 by (rule resolve_first_master(2))
      have "apiEndpointCount ?k = 1"
        using P1 pre post P2 by (simp add: apiEndpointCount_def allNodes_def filter_concat)
      with r zero noLB True show ?thesis by (simp add: allNodes_def)
    next
      case False
      with noApi have "\<forall>n\<in>set (allNodes k).
          Node_NodeType n \<noteq> apiEndpoint \<and> Node_NodeType n \<noteq> master"
        by (simp add: allNodes_def)
      with noLB have "findAPIEndpoint k (snd (getClusterNodes san k)) w
           = ([], k, w\<lparr>Log := Log w @ [noEndpointMessage k]\<rparr>)"
        by (rule resolve_no_candidate(2))
      with False show ?thesis by (simp add: allNodes_def)
    qed
  qed
qed

text \<open>
  Claim C4, amended. Resolution leaves the number of nodes tagged api-endpoint as it was,
  except that it becomes one when it was zero, no load balancer qualifies and some node is a
  master. Hence a cluster with at most one tagged node before resolution has at most one
  after it.
\<close>

theorem C4_endpoint_count:
  "apiEndpointCount (fst (snd (findAPIEndpoint k (snd (getClusterNodes san k)) w))) =
     (if apiEndpointCount k = 0
         \<and> (\<forall>lb\<in>set (LBClusters k). \<not> isApiServerLB (clusterName k) lb)
         \<and> (\<exists>n\<in>set (allNodes k). Node_NodeType n = master)
      then 1 else apiEndpointCount k)
   \<and> (apiEndpointCount k \<le> 1 \<longrightarrow>
        apiEndpointCount (fst (snd (findAPIEndpoint k (snd (getClusterNodes san k)) w))) \<le> 1)"
  by (simp add: resolved_count)

theorem C4_endpoint_count_witness:
  "apiEndpointCount exMasters = 0
   \<and> apiEndpointCount
       (fst (snd (findAPIEndpoint exMasters (snd (getClusterNodes (\<lambda>s. s) exMasters)) exWorld))) = 1"
proof -
  have z: "apiEndpointCount exMasters = 0"
    by (simp add: apiEndpointCount_def exMasters_def allNodes_def ex_defs)
  have noLB: "\<forall>lb\<in>set (LBClusters exMasters). \<not> isApiServerLB (clusterName exMasters) lb"
    by (simp add: exMasters_def exKube_def)
  have ms: "\<exists>n\<in>set (allNodes exMasters). Node_NodeType n = master"
    by (simp add: exMasters_def allNodes_def ex_defs)
  from C4_endpoint_count [of exMasters "\<lambda>s. s" exWorld] z noLB ms
  show ?thesis by simp
qed

text \<open>
  Claim C4 as stated fails on a cluster that already has two nodes tagged api-endpoint:
  both are still tagged after resolution.
\<close>

theorem C4_two_endpoints_remain:
  "apiEndpointCount
     (fst (snd (findAPIEndpoint exTwoEndpoints (snd (getClusterNodes (\<lambda>s. s) exTwoEndpoints))
        exWorld))) = 2"
  by (simp add: exTwoEndpoints_def allNodes_def ex_defs getClusterNodes_def findAPIEndpoint_def
        nodeAt_def TrimPrefix_def setNodeType_def setNodeTypeIn_def apiEndpointCount_def)

section \<open>The build\<close>

lemma findAPIEndpoint_frame:
  assumes "findAPIEndpoint k c w = (ep, k', w')"
  shows "K8s_Kubeconfig (K8sCluster k') = K8s_Kubeconfig (K8sCluster k)
         \<and> outputDirectory_field k' = outputDirectory_field k
         \<and> clusterName k' = clusterName k \<and> clusterHash k' = clusterHash k
         \<and> ClusterInfo_PrivateKey (K8s_ClusterInfo (K8sCluster k'))
             = ClusterInfo_PrivateKey (K8s_ClusterInfo (K8sCluster k))
         \<and> Files w' = Files w"
  using assms
  by (auto simp: findAPIEndpoint_def setNodeType_def clusterName_def clusterHash_def
           split: option.splits)

lemma generateTemplateData_frame:
  assumes "generateTemplateData san k w = (d, k', w')"
  shows "K8s_Kubeconfig (K8sCluster k') = K8s_Kubeconfig (K8sCluster k)
         \<and> outputDirectory_field k' = outputDirectory_field k
         \<and> clusterName k' = clusterName k \<and> clusterHash k' = clusterHash k
         \<and> Files w' = Files w"
proof -
  obtain ep k2 w2 where f: "findAPIEndpoint k (snd (getClusterNodes san k)) w = (ep, k2, w2)"
    by (cases "findAPIEndpoint k (snd (getClusterNodes san k)) w")
  have "k' = k2" and "w' = w2"
    using assms by (simp_all add: generateTemplateData_def f split_beta)
  with findAPIEndpoint_frame [OF f] show ?thesis by simp
qed

lemma generateFiles_frame:
  assumes "generateFiles env k w = (r, k1, w1)"
  shows "K8s_Kubeconfig (K8sCluster k1) = K8s_Kubeconfig (K8sCluster k)
         \<and> outputDirectory_field k1 = outputDirectory_field k
         \<and> clusterName k1 = clusterName k \<and> clusterHash k1 = clusterHash k"
proof (cases "LoadTemplate env (KubeOneTemplate env)")
  case (Inl err)
  with assms show ?thesis by (simp add: generateFiles_def)
next
  case (Inr tpl)
  obtain d k2 w2 where g: "generateTemplateData (sanitiseString env) k w = (d, k2, w2)"
    by (cases "generateTemplateData (sanitiseString env) k w")
  have "k1 = k2"
    using assms by (simp add: generateFiles_def Inr g split: sum.splits)
  with generateTemplateData_frame [OF g] show ?thesis by simp
qed

lemma workingDirectory_exMasters:
  "workingDirectory exMasters = ''services/kube-eleven/server/clusters/c1-h1''"
  by (simp add: workingDirectory_def Join_def Clean_def baseDirectory_def outputDirectory_def
        clusterID_def exMasters_def ex_defs)

lemma clusterID_exMasters: "clusterID exMasters = ''c1-h1''"
  by (simp add: clusterID_def exMasters_def ex_defs)

lemma generateTemplateData_exMasters:
  "generateTemplateData (\<lambda>s. s) (exMasters\<lparr>outputDirectory_field := d\<rparr>) exWorld =
     (\<lparr>Data_APIEndpoint = ''1.2.3.4'', Data_KubernetesVersion = ''v1.24.0'',
       Data_ClusterName = ''c1'',
       Data_Nodepools =
         [\<lparr>Info_NodepoolName = ''compute'', Info_Region = ''eu-west-2'',
           Info_Zone = ''eu-west-2a'', Info_CloudProviderName = ''aws'',
           Info_ProviderName = ''aws-1'',
           Info_Nodes = [\<lparr>NodeInfo_Name = ''compute-1'', NodeInfo_Node = (0, 0)\<rparr>]\<rparr>,
          \<lparr>Info_NodepoolName = ''control'', Info_Region = ''eu-west-2'',
           Info_Zone = ''eu-west-2a'', Info_CloudProviderName = ''aws'',
           Info_ProviderName = ''aws-1'',
           Info_Nodes = [\<lparr>NodeInfo_Name = ''control-1'', NodeInfo_Node = (1, 0)\<rparr>,
                         \<lparr>NodeInfo_Name = ''control-2'', NodeInfo_Node = (1, 1)\<rparr>]\<rparr>]\<rparr>,
      exKube ''c1'' ''h1'' ''old''
        [exPool ''compute'' [exNode ''c1-h1-compute-1'' ''10.0.0.1'' worker],
         exPool ''control'' [exNode ''c1-h1-control-1'' ''1.2.3.4'' apiEndpoint,
                             exNode ''c1-h1-control-2'' ''1.2.3.5'' master]] []
        \<lparr>outputDirectory_field := d\<rparr>,
      exWorld)"
  by (simp add: generateTemplateData_def getClusterNodes_def findAPIEndpoint_def TrimPrefix_def
        nodeAt_def setNodeType_def setNodeTypeIn_def exMasters_def ex_defs)

lemma kubeconfigFilePath_ex:
  "outputDirectory_field k = ''services/kube-eleven/server/clusters/c1-h1''
     \<Longrightarrow> ClusterInfo_Name (K8s_ClusterInfo (K8sCluster k)) = ''c1''
     \<Longrightarrow> kubeconfigFilePath k = ''services/kube-eleven/server/clusters/c1-h1/c1-kubeconfig''"
  by (simp add: kubeconfigFilePath_def Join_def Clean_def clusterName_def)

lemma generateFiles_exMasters:
  "generateFiles (exEnv a t r)
       (exMasters\<lparr>outputDirectory_field := ''services/kube-eleven/server/clusters/c1-h1''\<rparr>) exWorld =
     (None,
      exKube ''c1'' ''h1'' ''old''
        [exPool ''compute'' [exNode ''c1-h1-compute-1'' ''10.0.0.1'' worker],
         exPool ''control'' [exNode ''c1-h1-control-1'' ''1.2.3.4'' apiEndpoint,
                             exNode ''c1-h1-control-2'' ''1.2.3.5'' master]] []
        \<lparr>outputDirectory_field := ''services/kube-eleven/server/clusters/c1-h1''\<rparr>,
      exWorld\<lparr>Files :=
        [''services/kube-eleven/server/clusters/c1-h1/kubeone.yaml'' \<mapsto> ''1.2.3.4'',
         ''services/kube-eleven/server/clusters/c1-h1/private.pem'' \<mapsto> ''key'',
         ''services/kube-eleven/server/clusters/c1-h1/c1-kubeconfig'' \<mapsto> ''old'']\<rparr>)"
proof -
  have e: "sanitiseString (exEnv a t r) = (\<lambda>s. s)" by (simp add: exEnv_def)
  show ?thesis
    unfolding generateFiles_def e generateTemplateData_exMasters
    by (simp add: exEnv_def WriteFile_def generatedKubeoneManifestName_def sshKeyFileName_def
          exKube_def exWorld_def kubeconfigFilePath_ex)
qed

lemma exEnv_Apply: "Apply (exEnv a t r) dir ident fs = (a, t fs)"
  by (simp add: exEnv_def)

lemma exEnv_RemoveAll_failure: "RemoveAll_failure (exEnv a t r) path fs = r"
  by (simp add: exEnv_def)

text \<open>
  Claim C6. When the files were generated and the tool invocation fails, \<open>BuildCluster\<close>
  returns the tool's error wrapped in a message that names the working directory, the
  files are those the tool left (nothing is removed), and the kubeconfig of the cluster is
  the one it had before the build.
\<close>

theorem C6_tool_failure:
  assumes gen: "generateFiles env (k\<lparr>outputDirectory_field := workingDirectory k\<rparr>) w = (None, k1, w1)"
    and app: "Apply env (workingDirectory k) (clusterID k) (Files w1) = (Some err, fs)"
  shows \<open>BuildCluster env k w =
           (Some (Wrapped (''error while running "kubeone apply" in '' @ workingDirectory k
                             @ '' : '' @ Error err) err),
            k1, w1\<lparr>Files := fs\<rparr>)
         \<and> K8s_Kubeconfig (K8sCluster k1) = K8s_Kubeconfig (K8sCluster k)\<close>
proof -
  from generateFiles_frame [OF gen]
  have kc: "K8s_Kubeconfig (K8sCluster k1) = K8s_Kubeconfig (K8sCluster k)"
    and dir: "outputDirectory_field k1 = workingDirectory k" by simp_all
  have \<open>BuildCluster env k w =
           (Some (Wrapped (''error while running "kubeone apply" in '' @ workingDirectory k
                             @ '' : '' @ Error err) err),
            k1, w1\<lparr>Files := fs\<rparr>)\<close>
    by (simp add: BuildCluster_def gen dir app Errorf_w_def)
  with kc show ?thesis by simp
qed

theorem C6_tool_failure_witness:
  \<open>BuildCluster exToolFails exMasters exWorld =
     (Some (Wrapped
        ''error while running "kubeone apply" in services/kube-eleven/server/clusters/c1-h1 : exit status 1''
        (Failure ''exit status 1'')),
      exKube ''c1'' ''h1'' ''old''
        [exPool ''compute'' [exNode ''c1-h1-compute-1'' ''10.0.0.1'' worker],
         exPool ''control'' [exNode ''c1-h1-control-1'' ''1.2.3.4'' apiEndpoint,
                             exNode ''c1-h1-control-2'' ''1.2.3.5'' master]] []
        \<lparr>outputDirectory_field := ''services/kube-eleven/server/clusters/c1-h1''\<rparr>,
      exWorld\<lparr>Files :=
        [''services/kube-eleven/server/clusters/c1-h1/kubeone.yaml'' \<mapsto> ''1.2.3.4'',
         ''services/kube-eleven/server/clusters/c1-h1/private.pem'' \<mapsto> ''key'',
         ''services/kube-eleven/server/clusters/c1-h1/c1-kubeconfig'' \<mapsto> ''old'']\<rparr>)
   \<and> K8s_Kubeconfig (K8sCluster exMasters) = ''old''\<close>
proof -
  note g = generateFiles_exMasters [of "Some (Failure ''exit status 1'')" "\<lambda>fs. fs" None,
      folded exToolFails_def workingDirectory_exMasters]
  have a: "Apply exToolFails (workingDirectory exMasters) (clusterID exMasters)
             (Files (exWorld\<lparr>Files :=
        [''services/kube-eleven/server/clusters/c1-h1/kubeone.yaml'' \<mapsto> ''1.2.3.4'',
         ''services/kube-eleven/server/clusters/c1-h1/private.pem'' \<mapsto> ''key'',
         ''services/kube-eleven/server/clusters/c1-h1/c1-kubeconfig'' \<mapsto> ''old'']\<rparr>))
           = (Some (Failure ''exit status 1''),
        [''services/kube-eleven/server/clusters/c1-h1/kubeone.yaml'' \<mapsto> ''1.2.3.4'',
         ''services/kube-eleven/server/clusters/c1-h1/private.pem'' \<mapsto> ''key'',
         ''services/kube-eleven/server/clusters/c1-h1/c1-kubeconfig'' \<mapsto> ''old''])"
    by (simp add: exToolFails_def exEnv_Apply)
  from C6_tool_failure [OF g a]
  show ?thesis
    by (simp add: workingDirectory_exMasters) (simp add: exMasters_def exKube_def)
qed

text \<open>
  Claim C7. When the kubeconfig file read back after a successful tool invocation exists
  and is empty, reading it gives no error, the build ends as the clean-up ends (its only
  possible error is the one of the removal), and the kubeconfig of the cluster is the one it
  had before the build.
\<close>

theorem C7_empty_kubeconfig:
  assumes gen: "generateFiles env (k\<lparr>outputDirectory_field := workingDirectory k\<rparr>) w = (None, k1, w1)"
    and app: "Apply env (workingDirectory k) (clusterID k) (Files w1) = (None, fs)"
    and kfile: "fs (kubeconfigFilePath k1) = Some []"
  shows "readKubeconfigFromFile (kubeconfigFilePath k1) fs = Inr []
         \<and> BuildCluster env k w =
             (case RemoveAll env (workingDirectory k) fs of
                (Some err, fs') \<Rightarrow>
                  (Some (Errorf_w (''error while removing files from '' @ workingDirectory k @ '': '') err),
                   k1, w1\<lparr>Files := fs'\<rparr>)
              | (None, fs') \<Rightarrow> (None, k1, w1\<lparr>Files := fs'\<rparr>))
         \<and> K8s_Kubeconfig (K8sCluster k1) = K8s_Kubeconfig (K8sCluster k)"
proof -
  from generateFiles_frame [OF gen]
  have kc: "K8s_Kubeconfig (K8sCluster k1) = K8s_Kubeconfig (K8sCluster k)"
    and dir: "outputDirectory_field k1 = workingDirectory k" by simp_all
  have rd: "readKubeconfigFromFile (kubeconfigFilePath k1) fs = Inr []"
    by (simp add: readKubeconfigFromFile_def kfile)
  have "BuildCluster env k w =
             (case RemoveAll env (workingDirectory k) fs of
                (Some err, fs') \<Rightarrow>
                  (Some (Errorf_w (''error while removing files from '' @ workingDirectory k @ '': '') err),
                   k1, w1\<lparr>Files := fs'\<rparr>)
              | (None, fs') \<Rightarrow> (None, k1, w1\<lparr>Files := fs'\<rparr>))"
    by (simp add: BuildCluster_def gen dir app rd split: prod.splits option.splits)
  with kc rd show ?thesis by simp
qed

theorem C7_empty_kubeconfig_witness:
  "fst (BuildCluster exToolEmpty exMasters exWorld) = None
   \<and> K8s_Kubeconfig (K8sCluster (fst (snd (BuildCluster exToolEmpty exMasters exWorld)))) = ''old''
   \<and> K8s_Kubeconfig (K8sCluster exMasters) = ''old''
   \<and> Files (snd (snd (BuildCluster exToolEmpty exMasters exWorld)))
        ''services/kube-eleven/server/clusters/c1-h1/c1-kubeconfig'' = None"
proof -
  note g = generateFiles_exMasters [of None
      "\<lambda>fs. fs(''services/kube-eleven/server/clusters/c1-h1/c1-kubeconfig'' \<mapsto> [])" None,
      folded exToolEmpty_def workingDirectory_exMasters]
  have a: "Apply exToolEmpty (workingDirectory exMasters) (clusterID exMasters)
             (Files (exWorld\<lparr>Files :=
        [''services/kube-eleven/server/clusters/c1-h1/kubeone.yaml'' \<mapsto> ''1.2.3.4'',
         ''services/kube-eleven/server/clusters/c1-h1/private.pem'' \<mapsto> ''key'',
         ''services/kube-eleven/server/clusters/c1-h1/c1-kubeconfig'' \<mapsto> ''old'']\<rparr>))
           = (None,
        [''services/kube-eleven/server/clusters/c1-h1/kubeone.yaml'' \<mapsto> ''1.2.3.4'',
         ''services/kube-eleven/server/clusters/c1-h1/private.pem'' \<mapsto> ''key'',
         ''services/kube-eleven/server/clusters/c1-h1/c1-kubeconfig'' \<mapsto> []])"
    by (simp add: exToolEmpty_def exEnv_Apply)
  have f: "[''services/kube-eleven/server/clusters/c1-h1/kubeone.yaml'' \<mapsto> ''1.2.3.4'',
         ''services/kube-eleven/server/clusters/c1-h1/private.pem'' \<mapsto> ''key'',
         ''services/kube-eleven/server/clusters/c1-h1/c1-kubeconfig'' \<mapsto> []]
        (kubeconfigFilePath (exKube ''c1'' ''h1'' ''old''
        [exPool ''compute'' [exNode ''c1-h1-compute-1'' ''10.0.0.1'' worker],
         exPool ''control'' [exNode ''c1-h1-control-1'' ''1.2.3.4'' apiEndpoint,
                             exNode ''c1-h1-control-2'' ''1.2.3.5'' master]] []
        \<lparr>outputDirectory_field := workingDirectory exMasters\<rparr>)) = Some []"
    by (simp add: kubeconfigFilePath_ex workingDirectory_exMasters exKube_def)
  have r: "RemoveAll exToolEmpty ''services/kube-eleven/server/clusters/c1-h1'' fs =
             (None, \<lambda>f. if f = ''services/kube-eleven/server/clusters/c1-h1''
                            \<or> prefix ''services/kube-eleven/server/clusters/c1-h1/'' f
                         then None else fs f)" for fs
    by (simp add: RemoveAll_def exToolEmpty_def exEnv_RemoveAll_failure)
  from C7_empty_kubeconfig [OF g a f]
  show ?thesis
    by (simp add: workingDirectory_exMasters r) (simp add: exMasters_def exKube_def)
qed

text \<open>
  Claim C8. When the kubeconfig read back is not empty and the removal of the working
  directory fails, \<open>BuildCluster\<close> returns the wrapped removal error although the cluster
  already holds the new kubeconfig; the files are those the failed removal left.
\<close>

theorem C8_error_after_update:
  assumes gen: "generateFiles env (k\<lparr>outputDirectory_field := workingDirectory k\<rparr>) w = (None, k1, w1)"
    and app: "Apply env (workingDirectory k) (clusterID k) (Files w1) = (None, fs)"
    and rd: "readKubeconfigFromFile (kubeconfigFilePath k1) fs = Inr content"
    and nonempty: "content \<noteq> []"
    and rm: "RemoveAll env (workingDirectory k) fs = (Some err, fs')"
  shows "BuildCluster env k w =
           (Some (Wrapped (''error while removing files from '' @ workingDirectory k @ '': ''
                             @ Error err) err),
            k1\<lparr>K8sCluster := (K8sCluster k1)\<lparr>K8s_Kubeconfig := content\<rparr>\<rparr>,
            w1\<lparr>Files := fs'\<rparr>)
         \<and> K8s_Kubeconfig (K8sCluster k1) = K8s_Kubeconfig (K8sCluster k)"
proof -
  from generateFiles_frame [OF gen]
  have kc: "K8s_Kubeconfig (K8sCluster k1) = K8s_Kubeconfig (K8sCluster k)"
    and dir: "outputDirectory_field k1 = workingDirectory k" by simp_all
  have "BuildCluster env k w =
           (Some (Wrapped (''error while removing files from '' @ workingDirectory k @ '': ''
                             @ Error err) err),
            k1\<lparr>K8sCluster := (K8sCluster k1)\<lparr>K8s_Kubeconfig := content\<rparr>\<rparr>,
            w1\<lparr>Files := fs'\<rparr>)"
    using nonempty by (simp add: BuildCluster_def gen dir app rd rm Errorf_w_def)
  with kc show ?thesis by simp
qed

lemma key_file_left:
  "(\<lambda>f. if (f = ''services/kube-eleven/server/clusters/c1-h1''
              \<or> prefix ''services/kube-eleven/server/clusters/c1-h1/'' f)
             \<and> \<not> f = ''services/kube-eleven/server/clusters/c1-h1/private.pem''
          then None
          else [''services/kube-eleven/server/clusters/c1-h1/kubeone.yaml'' \<mapsto> ''1.2.3.4'',
                ''services/kube-eleven/server/clusters/c1-h1/private.pem'' \<mapsto> ''key'',
                ''services/kube-eleven/server/clusters/c1-h1/c1-kubeconfig'' \<mapsto> ''new''] f)
   = [''services/kube-eleven/server/clusters/c1-h1/private.pem'' \<mapsto> ''key'']"
  by (rule ext) auto

theorem C8_error_after_update_witness:
  "BuildCluster exRemoveFails exMasters exWorld =
     (Some (Wrapped
        ''error while removing files from services/kube-eleven/server/clusters/c1-h1: permission denied''
        (Failure ''permission denied'')),
      exKube ''c1'' ''h1'' ''new''
        [exPool ''compute'' [exNode ''c1-h1-compute-1'' ''10.0.0.1'' worker],
         exPool ''control'' [exNode ''c1-h1-control-1'' ''1.2.3.4'' apiEndpoint,
                             exNode ''c1-h1-control-2'' ''1.2.3.5'' master]] []
        \<lparr>outputDirectory_field := ''services/kube-eleven/server/clusters/c1-h1''\<rparr>,
      exWorld\<lparr>Files :=
        [''services/kube-eleven/server/clusters/c1-h1/private.pem'' \<mapsto> ''key'']\<rparr>)
   \<and> K8s_Kubeconfig (K8sCluster exMasters) = ''old''"
proof -
  note g = generateFiles_exMasters [of None
      "\<lambda>fs. fs(''services/kube-eleven/server/clusters/c1-h1/c1-kubeconfig'' \<mapsto> ''new'')"
      "Some (Failure ''permission denied'',
             \<lambda>f. f = ''services/kube-eleven/server/clusters/c1-h1/private.pem'')",
      folded exRemoveFails_def workingDirectory_exMasters]
  have a: "Apply exRemoveFails (workingDirectory exMasters) (clusterID exMasters)
             (Files (exWorld\<lparr>Files :=
        [''services/kube-eleven/server/clusters/c1-h1/kubeone.yaml'' \<mapsto> ''1.2.3.4'',
         ''services/kube-eleven/server/clusters/c1-h1/private.pem'' \<mapsto> ''key'',
         ''services/kube-eleven/server/clusters/c1-h1/c1-kubeconfig'' \<mapsto> ''old'']\<rparr>))
           = (None,
        [''services/kube-eleven/server/clusters/c1-h1/kubeone.yaml'' \<mapsto> ''1.2.3.4'',
         ''services/kube-eleven/server/clusters/c1-h1/private.pem'' \<mapsto> ''key'',
         ''services/kube-eleven/server/clusters/c1-h1/c1-kubeconfig'' \<mapsto> ''new''])"
    by (simp add: exRemoveFails_def exEnv_Apply)
  have f: "readKubeconfigFromFile
        (kubeconfigFilePath (exKube ''c1'' ''h1'' ''old''
        [exPool ''compute'' [exNode ''c1-h1-compute-1'' ''10.0.0.1'' worker],
         exPool ''control'' [exNode ''c1-h1-control-1'' ''1.2.3.4'' apiEndpoint,
                             exNode ''c1-h1-control-2'' ''1.2.3.5'' master]] []
        \<lparr>outputDirectory_field := workingDirectory exMasters\<rparr>))
        [''services/kube-eleven/server/clusters/c1-h1/kubeone.yaml'' \<mapsto> ''1.2.3.4'',
         ''services/kube-eleven/server/clusters/c1-h1/private.pem'' \<mapsto> ''key'',
         ''services/kube-eleven/server/clusters/c1-h1/c1-kubeconfig'' \<mapsto> ''new'']
        = Inr ''new''"
    by (simp add: readKubeconfigFromFile_def kubeconfigFilePath_ex workingDirectory_exMasters
          exKube_def)
  have n: "''new'' \<noteq> []" by simp
  have r: "RemoveAll exRemoveFails (workingDirectory exMasters)
        [''services/kube-eleven/server/clusters/c1-h1/kubeone.yaml'' \<mapsto> ''1.2.3.4'',
         ''services/kube-eleven/server/clusters/c1-h1/private.pem'' \<mapsto> ''key'',
         ''services/kube-eleven/server/clusters/c1-h1/c1-kubeconfig'' \<mapsto> ''new'']
          = (Some (Failure ''permission denied''),
             [''services/kube-eleven/server/clusters/c1-h1/private.pem'' \<mapsto> ''key''])"
    unfolding RemoveAll_def exRemoveFails_def exEnv_RemoveAll_failure workingDirectory_exMasters
    using key_file_left by simp
  from C8_error_after_update [OF g a f n r]
  show ?thesis
    by (simp add: workingDirectory_exMasters) (simp add: exMasters_def exKube_def)
qed

lemma no_candidate_with_directory:
  assumes noLB: "\<forall>lb\<in>set (LBClusters k). \<not> isApiServerLB (clusterName k) lb"
    and none: "\<forall>n\<in>set (allNodes k). Node_NodeType n \<noteq> apiEndpoint \<and> Node_NodeType n \<noteq> master"
  shows "\<forall>lb\<in>set (LBClusters (k\<lparr>outputDirectory_field := dir\<rparr>)).
           \<not> isApiServerLB (clusterName (k\<lparr>outputDirectory_field := dir\<rparr>)) lb"
    and "\<forall>n\<in>set (allNodes (k\<lparr>outputDirectory_field := dir\<rparr>)).
           Node_NodeType n \<noteq> apiEndpoint \<and> Node_NodeType n \<noteq> master"
proof -
  have same: "LBClusters (k\<lparr>outputDirectory_field := dir\<rparr>) = LBClusters k"
    "clusterName (k\<lparr>outputDirectory_field := dir\<rparr>) = clusterName k"
    "allNodes (k\<lparr>outputDirectory_field := dir\<rparr>) = allNodes k"
    by (simp_all add: clusterName_def allNodes_def nodePools_def)
  show "\<forall>lb\<in>set (LBClusters (k\<lparr>outputDirectory_field := dir\<rparr>)).
           \<not> isApiServerLB (clusterName (k\<lparr>outputDirectory_field := dir\<rparr>)) lb"
    using noLB unfolding same .
  show "\<forall>n\<in>set (allNodes (k\<lparr>outputDirectory_field := dir\<rparr>)).
           Node_NodeType n \<noteq> apiEndpoint \<and> Node_NodeType n \<noteq> master"
    using none unfolding same .
qed

lemma generateTemplateData_no_candidate:
  assumes noLB: "\<forall>lb\<in>set (LBClusters k). \<not> isApiServerLB (clusterName k) lb"
    and none: "\<forall>n\<in>set (allNodes k). Node_NodeType n \<noteq> apiEndpoint \<and> Node_NodeType n \<noteq> master"
  shows "generateTemplateData san k w =
           (\<lparr>Data_APIEndpoint = [],
             Data_KubernetesVersion = K8s_Kubernetes (K8sCluster k),
             Data_ClusterName = clusterName k,
             Data_Nodepools = fst (getClusterNodes san k)\<rparr>,
            k, w\<lparr>Log := Log w @ [noEndpointMessage k]\<rparr>)"
proof -
  obtain infos c where g: "getClusterNodes san k = (infos, c)"
    by (cases "getClusterNodes san k")
  from resolve_no_candidate(2) [OF noLB none, of san w] g
  have "findAPIEndpoint k c w = ([], k, w\<lparr>Log := Log w @ [noEndpointMessage k]\<rparr>)" by simp
  then show ?thesis by (simp add: generateTemplateData_def g)
qed

lemma generateFiles_no_candidate:
  assumes noLB: "\<forall>lb\<in>set (LBClusters k). \<not> isApiServerLB (clusterName k) lb"
    and none: "\<forall>n\<in>set (allNodes k). Node_NodeType n \<noteq> apiEndpoint \<and> Node_NodeType n \<noteq> master"
  shows "generateFiles env k w =
     (case LoadTemplate env (KubeOneTemplate env) of
        Inl err \<Rightarrow> (Some (Errorf_w ''error while loading a kubeone template : '' err), k, w)
      | Inr template \<Rightarrow>
          (case Generate env template (outputDirectory_field k) generatedKubeoneManifestName
                  \<lparr>Data_APIEndpoint = [],
                   Data_KubernetesVersion = K8s_Kubernetes (K8sCluster k),
                   Data_ClusterName = clusterName k,
                   Data_Nodepools = fst (getClusterNodes (sanitiseString env) k)\<rparr>
                  (K8sCluster k) (Files w) of
             Inl err \<Rightarrow>
               (Some (Errorf_w (''error while generating '' @ generatedKubeoneManifestName
                                  @ '' from kubeone template : '') err),
                k, w\<lparr>Log := Log w @ [noEndpointMessage k]\<rparr>)
           | Inr fs2 \<Rightarrow>
               (case CreateKeyFile env (ClusterInfo_PrivateKey (K8s_ClusterInfo (K8sCluster k)))
                       (outputDirectory_field k) sshKeyFileName fs2 of
                  Inl err \<Rightarrow>
                    (Some (Errorf_w ''error while creating SSH key file: '' err),
                     k, w\<lparr>Log := Log w @ [noEndpointMessage k], Files := fs2\<rparr>)
                | Inr fs3 \<Rightarrow>
                    (case WriteFile env (kubeconfigFilePath k) (K8s_Kubeconfig (K8sCluster k)) fs3 of
                       Inl err \<Rightarrow>
                         (Some (Errorf_w (''error while writing cluster-kubeconfig file in ''
                                            @ outputDirectory_field k @ '': '') err),
                          k, w\<lparr>Log := Log w @ [noEndpointMessage k], Files := fs3\<rparr>)
                     | Inr fs4 \<Rightarrow>
                         (None, k, w\<lparr>Log := Log w @ [noEndpointMessage k], Files := fs4\<rparr>)))))"
  unfolding generateFiles_def
    generateTemplateData_no_candidate [OF noLB none, of "sanitiseString env" w]
  by (simp split: sum.splits)

lemma generateFiles_no_candidate_result:
  assumes noLB: "\<forall>lb\<in>set (LBClusters k). \<not> isApiServerLB (clusterName k) lb"
    and none: "\<forall>n\<in>set (allNodes k). Node_NodeType n \<noteq> apiEndpoint \<and> Node_NodeType n \<noteq> master"
    and gen: "generateFiles env k w = (r, k1, w1)"
  shows "k1 = k" and "r = None \<longrightarrow> Log w1 = Log w @ [noEndpointMessage k]"
  using gen unfolding generateFiles_no_candidate [OF noLB none]
  by (auto split: sum.splits)

text \<open>
  Claim C5. With no qualifying load balancer and no node tagged api-endpoint or master,
  resolution returns the empty endpoint and the unchanged cluster and writes one line to the
  log; it has no error to return. \<open>generateFiles\<close> goes on with the empty endpoint in the
  template data: its result is the one of the template engine, the key writer and the file
  write, and each of its errors is one of theirs. Once the files are generated,
  \<open>BuildCluster\<close> runs the tool on them, and its result is the one of the tool, the
  extraction and the removal; when a collaborator of \<open>generateFiles\<close> fails,
  \<open>BuildCluster\<close> returns that error wrapped.
\<close>

theorem C5_no_endpoint_is_logged:
  assumes noLB: "\<forall>lb\<in>set (LBClusters k). \<not> isApiServerLB (clusterName k) lb"
    and none: "\<forall>n\<in>set (allNodes k). Node_NodeType n \<noteq> apiEndpoint \<and> Node_NodeType n \<noteq> master"
  shows \<open>findAPIEndpoint k (snd (getClusterNodes san k)) w
           = ([], k, w\<lparr>Log := Log w @ [noEndpointMessage k]\<rparr>)
   \<and> generateTemplateData san k w =
           (\<lparr>Data_APIEndpoint = [],
             Data_KubernetesVersion = K8s_Kubernetes (K8sCluster k),
             Data_ClusterName = clusterName k,
             Data_Nodepools = fst (getClusterNodes san k)\<rparr>,
            k, w\<lparr>Log := Log w @ [noEndpointMessage k]\<rparr>)
   \<and> generateFiles env k w =
     (case LoadTemplate env (KubeOneTemplate env) of
        Inl err \<Rightarrow> (Some (Errorf_w ''error while loading a kubeone template : '' err), k, w)
      | Inr template \<Rightarrow>
          (case Generate env template (outputDirectory_field k) generatedKubeoneManifestName
                  \<lparr>Data_APIEndpoint = [],
                   Data_KubernetesVersion = K8s_Kubernetes (K8sCluster k),
                   Data_ClusterName = clusterName k,
                   Data_Nodepools = fst (getClusterNodes (sanitiseString env) k)\<rparr>
                  (K8sCluster k) (Files w) of
             Inl err \<Rightarrow>
               (Some (Errorf_w (''error while generating '' @ generatedKubeoneManifestName
                                  @ '' from kubeone template : '') err),
                k, w\<lparr>Log := Log w @ [noEndpointMessage k]\<rparr>)
           | Inr fs2 \<Rightarrow>
               (case CreateKeyFile env (ClusterInfo_PrivateKey (K8s_ClusterInfo (K8sCluster k)))
                       (outputDirectory_field k) sshKeyFileName fs2 of
                  Inl err \<Rightarrow>
                    (Some (Errorf_w ''error while creating SSH key file: '' err),
                     k, w\<lparr>Log := Log w @ [noEndpointMessage k], Files := fs2\<rparr>)
                | Inr fs3 \<Rightarrow>
                    (case WriteFile env (kubeconfigFilePath k) (K8s_Kubeconfig (K8sCluster k)) fs3 of
                       Inl err \<Rightarrow>
                         (Some (Errorf_w (''error while writing cluster-kubeconfig file in ''
                                            @ outputDirectory_field k @ '': '') err),
                          k, w\<lparr>Log := Log w @ [noEndpointMessage k], Files := fs3\<rparr>)
                     | Inr fs4 \<Rightarrow>
                         (None, k, w\<lparr>Log := Log w @ [noEndpointMessage k], Files := fs4\<rparr>)))))
   \<and> (\<forall>k1 w1.
         generateFiles env (k\<lparr>outputDirectory_field := workingDirectory k\<rparr>) w = (None, k1, w1) \<longrightarrow>
         k1 = k\<lparr>outputDirectory_field := workingDirectory k\<rparr>
         \<and> Log w1 = Log w @ [noEndpointMessage k]
         \<and> BuildCluster env k w =
             (case Apply env (workingDirectory k) (clusterID k) (Files w1) of
                (Some err, fs2) \<Rightarrow>
                  (Some (Errorf_w (''error while running "kubeone apply" in ''
                                     @ workingDirectory k @ '' : '') err),
                   k1, w1\<lparr>Files := fs2\<rparr>)
              | (None, fs2) \<Rightarrow>
                  (case readKubeconfigFromFile (kubeconfigFilePath k1) fs2 of
                     Inl err \<Rightarrow>
                       (Some (Errorf_w (''error while reading cluster-config in ''
                                          @ workingDirectory k @ '' : '') err),
                        k1, w1\<lparr>Files := fs2\<rparr>)
                   | Inr content \<Rightarrow>
                       (case RemoveAll env (workingDirectory k) fs2 of
                          (Some err, fs3) \<Rightarrow>
                            (Some (Errorf_w (''error while removing files from ''
                                               @ workingDirectory k @ '': '') err),
                             (if content = [] then k1
                              else k1\<lparr>K8sCluster := (K8sCluster k1)\<lparr>K8s_Kubeconfig := content\<rparr>\<rparr>),
                             w1\<lparr>Files := fs3\<rparr>)
                        | (None, fs3) \<Rightarrow>
                            (None,
                             (if content = [] then k1
                              else k1\<lparr>K8sCluster := (K8sCluster k1)\<lparr>K8s_Kubeconfig := content\<rparr>\<rparr>),
                             w1\<lparr>Files := fs3\<rparr>)))))
   \<and> (\<forall>err k1 w1.
         generateFiles env (k\<lparr>outputDirectory_field := workingDirectory k\<rparr>) w = (Some err, k1, w1) \<longrightarrow>
         k1 = k\<lparr>outputDirectory_field := workingDirectory k\<rparr>
         \<and> BuildCluster env k w =
             (Some (Errorf_w (''error while generating files for '' @ clusterName k @ '' : '') err),
              k1, w1))\<close>
proof -
  let ?k = "k\<lparr>outputDirectory_field := workingDirectory k\<rparr>"
  have 1: "findAPIEndpoint k (snd (getClusterNodes san k)) w
           = ([], k, w\<lparr>Log := Log w @ [noEndpointMessage k]\<rparr>)"
    using noLB none by (rule resolve_no_candidate(2))
  note 2 = generateTemplateData_no_candidate [OF noLB none, of san w]
  note 3 = generateFiles_no_candidate [OF noLB none, of env w]
  note noLB' = no_candidate_with_directory(1) [OF noLB none, of "workingDirectory k"]
  note none' = no_candidate_with_directory(2) [OF noLB none, of "workingDirectory k"]
  have msg: "noEndpointMessage ?k = noEndpointMessage k"
    by (simp add: noEndpointMessage_def clusterName_def)
  have 4: \<open>k1 = ?k \<and> Log w1 = Log w @ [noEndpointMessage k]
         \<and> BuildCluster env k w =
             (case Apply env (workingDirectory k) (clusterID k) (Files w1) of
                (Some err, fs2) \<Rightarrow>
                  (Some (Errorf_w (''error while running "kubeone apply" in ''
                                     @ workingDirectory k @ '' : '') err),
                   k1, w1\<lparr>Files := fs2\<rparr>)
              | (None, fs2) \<Rightarrow>
                  (case readKubeconfigFromFile (kubeconfigFilePath k1) fs2 of
                     Inl err \<Rightarrow>
                       (Some (Errorf_w (''error while reading cluster-config in ''
                                          @ workingDirectory k @ '' : '') err),
                        k1, w1\<lparr>Files := fs2\<rparr>)
                   | Inr content \<Rightarrow>
                       (case RemoveAll env (workingDirectory k) fs2 of
                          (Some err, fs3) \<Rightarrow>
                            (Some (Errorf_w (''error while removing files from ''
                                               @ workingDirectory k @ '': '') err),
                             (if content = [] then k1
                              else k1\<lparr>K8sCluster := (K8sCluster k1)\<lparr>K8s_Kubeconfig := content\<rparr>\<rparr>),
                             w1\<lparr>Files := fs3\<rparr>)
                        | (None, fs3) \<Rightarrow>
                            (None,
                             (if content = [] then k1
                              else k1\<lparr>K8sCluster := (K8sCluster k1)\<lparr>K8s_Kubeconfig := content\<rparr>\<rparr>),
                             w1\<lparr>Files := fs3\<rparr>))))\<close>
    if gen: "generateFiles env ?k w = (None, k1, w1)" for k1 w1
  proof -
    from generateFiles_no_candidate_result(1) [OF noLB' none' gen]
    have a: "k1 = ?k" .
    from generateFiles_no_candidate_result(2) [OF noLB' none' gen]
    have b: "Log w1 = Log w @ [noEndpointMessage k]" by (simp add: msg)
    have dir: "outputDirectory_field k1 = workingDirectory k" by (simp add: a)
    have c: \<open>BuildCluster env k w =
             (case Apply env (workingDirectory k) (clusterID k) (Files w1) of
                (Some err, fs2) \<Rightarrow>
                  (Some (Errorf_w (''error while running "kubeone apply" in ''
                                     @ workingDirectory k @ '' : '') err),
                   k1, w1\<lparr>Files := fs2\<rparr>)
              | (None, fs2) \<Rightarrow>
                  (case readKubeconfigFromFile (kubeconfigFilePath k1) fs2 of
                     Inl err \<Rightarrow>
                       (Some (Errorf_w (''error while reading cluster-config in ''
                                          @ workingDirectory k @ '' : '') err),
                        k1, w1\<lparr>Files := fs2\<rparr>)
                   | Inr content \<Rightarrow>
                       (case RemoveAll env (workingDirectory k) fs2 of
                          (Some err, fs3) \<Rightarrow>
                            (Some (Errorf_w (''error while removing files from ''
                                               @ workingDirectory k @ '': '') err),
                             (if content = [] then k1
                              else k1\<lparr>K8sCluster := (K8sCluster k1)\<lparr>K8s_Kubeconfig := content\<rparr>\<rparr>),
                             w1\<lparr>Files := fs3\<rparr>)
                        | (None, fs3) \<Rightarrow>
                            (None,
                             (if content = [] then k1
                              else k1\<lparr>K8sCluster := (K8sCluster k1)\<lparr>K8s_Kubeconfig := content\<rparr>\<rparr>),
                             w1\<lparr>Files := fs3\<rparr>))))\<close>
      by (simp add: BuildCluster_def gen dir Let_def split: prod.splits option.splits sum.splits)
    from a b c show ?thesis by (intro conjI)
  qed
  have 5: "k1 = ?k
         \<and> BuildCluster env k w =
             (Some (Errorf_w (''error while generating files for '' @ clusterName k @ '' : '') err),
              k1, w1)"
    if gen: "generateFiles env ?k w = (Some err, k1, w1)" for err k1 w1
  proof -
    from generateFiles_no_candidate_result(1) [OF noLB' none' gen]
    have a: "k1 = ?k" .
    have n: "clusterName k1 = clusterName k" by (simp add: a clusterName_def)
    have "BuildCluster env k w =
             (Some (Errorf_w (''error while generating files for '' @ clusterName k @ '' : '') err),
              k1, w1)"
      by (simp add: BuildCluster_def gen n)
    with a show ?thesis by (intro conjI)
  qed
  from 1 2 3 4 5 show ?thesis by (intro conjI allI impI) blast+
qed

lemma workingDirectory_exWorkers:
  "workingDirectory exWorkers = ''services/kube-eleven/server/clusters/c1-h1''"
  by (simp add: workingDirectory_def Join_def Clean_def baseDirectory_def outputDirectory_def
        clusterID_def exWorkers_def ex_defs)

lemma generateFiles_exWorkers:
  "generateFiles (exEnv a t r)
       (exWorkers\<lparr>outputDirectory_field := ''services/kube-eleven/server/clusters/c1-h1''\<rparr>) exWorld =
     (None,
      exWorkers\<lparr>outputDirectory_field := ''services/kube-eleven/server/clusters/c1-h1''\<rparr>,
      \<lparr>Files =
        [''services/kube-eleven/server/clusters/c1-h1/kubeone.yaml'' \<mapsto> [],
         ''services/kube-eleven/server/clusters/c1-h1/private.pem'' \<mapsto> ''key'',
         ''services/kube-eleven/server/clusters/c1-h1/c1-kubeconfig'' \<mapsto> ''old''],
       Log = [''Cluster c1 does not have any API endpoint specified'']\<rparr>)"
  by (simp add: generateFiles_def generateTemplateData_def getClusterNodes_def
        findAPIEndpoint_def TrimPrefix_def exEnv_def WriteFile_def
        generatedKubeoneManifestName_def sshKeyFileName_def kubeconfigFilePath_ex
        exWorkers_def ex_defs)

lemma all_files_removed:
  "(\<lambda>f. if f = ''services/kube-eleven/server/clusters/c1-h1''
             \<or> prefix ''services/kube-eleven/server/clusters/c1-h1/'' f
          then None
          else [''services/kube-eleven/server/clusters/c1-h1/kubeone.yaml'' \<mapsto> [],
                ''services/kube-eleven/server/clusters/c1-h1/private.pem'' \<mapsto> ''key'',
                ''services/kube-eleven/server/clusters/c1-h1/c1-kubeconfig'' \<mapsto> ''new''] f)
   = Map.empty"
  by (rule ext) auto

theorem C5_no_endpoint_is_logged_witness:
  "findAPIEndpoint exWorkers (snd (getClusterNodes (\<lambda>s. s) exWorkers)) exWorld
     = ([], exWorkers, exWorld\<lparr>Log := [''Cluster c1 does not have any API endpoint specified'']\<rparr>)
   \<and> generateFiles exToolNew
        (exWorkers\<lparr>outputDirectory_field := ''services/kube-eleven/server/clusters/c1-h1''\<rparr>)
        exWorld =
       (None,
        exWorkers\<lparr>outputDirectory_field := ''services/kube-eleven/server/clusters/c1-h1''\<rparr>,
        \<lparr>Files =
          [''services/kube-eleven/server/clusters/c1-h1/kubeone.yaml'' \<mapsto> [],
           ''services/kube-eleven/server/clusters/c1-h1/private.pem'' \<mapsto> ''key'',
           ''services/kube-eleven/server/clusters/c1-h1/c1-kubeconfig'' \<mapsto> ''old''],
         Log = [''Cluster c1 does not have any API endpoint specified'']\<rparr>)
   \<and> BuildCluster exToolNew exWorkers exWorld =
       (None,
        exKube ''c1'' ''h1'' ''new''
          [exPool ''compute'' [exNode ''c1-h1-compute-1'' ''10.0.0.1'' worker]] []
          \<lparr>outputDirectory_field := ''services/kube-eleven/server/clusters/c1-h1''\<rparr>,
        \<lparr>Files = Map.empty,
         Log = [''Cluster c1 does not have any API endpoint specified'']\<rparr>)
   \<and> BuildCluster exTemplateFails exWorkers exWorld =
       (Some (Wrapped
          ''error while generating files for c1 : error while generating kubeone.yaml from kubeone template : template: unexpected EOF''
          (Wrapped
             ''error while generating kubeone.yaml from kubeone template : template: unexpected EOF''
             (Failure ''template: unexpected EOF''))),
        exWorkers\<lparr>outputDirectory_field := ''services/kube-eleven/server/clusters/c1-h1''\<rparr>,
        \<lparr>Files = Map.empty,
         Log = [''Cluster c1 does not have any API endpoint specified'']\<rparr>)"
proof -
  have noLB: "\<forall>lb\<in>set (LBClusters exWorkers). \<not> isApiServerLB (clusterName exWorkers) lb"
    by (simp add: exWorkers_def exKube_def)
  have none: "\<forall>n\<in>set (allNodes exWorkers).
      Node_NodeType n \<noteq> apiEndpoint \<and> Node_NodeType n \<noteq> master"
    by (simp add: exWorkers_def allNodes_def ex_defs)
  have msg: "noEndpointMessage exWorkers = ''Cluster c1 does not have any API endpoint specified''"
    by (simp add: noEndpointMessage_def exWorkers_def ex_defs)
  have lg: "Log exWorld = []" by (simp add: exWorld_def)
  note gen = generateFiles_exWorkers [of None
      "\<lambda>fs. fs(''services/kube-eleven/server/clusters/c1-h1/c1-kubeconfig'' \<mapsto> ''new'')" None,
      folded exToolNew_def]
  note t = C5_no_endpoint_is_logged [OF noLB none, of "\<lambda>s. s" exWorld exToolNew]
  from t [THEN conjunct1]
  have a: "findAPIEndpoint exWorkers (snd (getClusterNodes (\<lambda>s. s) exWorkers)) exWorld
     = ([], exWorkers, exWorld\<lparr>Log := [''Cluster c1 does not have any API endpoint specified'']\<rparr>)"
    by (simp add: msg lg)
  note u = t [THEN conjunct2, THEN conjunct2, THEN conjunct2, THEN conjunct1,
      THEN spec, THEN spec, THEN mp,
      unfolded workingDirectory_exWorkers, OF gen, THEN conjunct2, THEN conjunct2]
  have rd: "readKubeconfigFromFile
       (kubeconfigFilePath
          (exWorkers\<lparr>outputDirectory_field := ''services/kube-eleven/server/clusters/c1-h1''\<rparr>))
       [''services/kube-eleven/server/clusters/c1-h1/kubeone.yaml'' \<mapsto> [],
        ''services/kube-eleven/server/clusters/c1-h1/private.pem'' \<mapsto> ''key'',
        ''services/kube-eleven/server/clusters/c1-h1/c1-kubeconfig'' \<mapsto> ''new'']
       = Inr ''new''"
    by (simp add: readKubeconfigFromFile_def kubeconfigFilePath_ex exWorkers_def exKube_def)
  have rm: "RemoveAll exToolNew ''services/kube-eleven/server/clusters/c1-h1''
       [''services/kube-eleven/server/clusters/c1-h1/kubeone.yaml'' \<mapsto> [],
        ''services/kube-eleven/server/clusters/c1-h1/private.pem'' \<mapsto> ''key'',
        ''services/kube-eleven/server/clusters/c1-h1/c1-kubeconfig'' \<mapsto> ''new'']
       = (None, Map.empty)"
    unfolding RemoveAll_def exToolNew_def exEnv_RemoveAll_failure
    using all_files_removed by simp
  have ap: "Apply exToolNew dir ident fs
       = (None, fs(''services/kube-eleven/server/clusters/c1-h1/c1-kubeconfig'' \<mapsto> ''new''))"
    for dir ident fs
    by (simp add: exToolNew_def exEnv_Apply)
  have c: "BuildCluster exToolNew exWorkers exWorld =
       (None,
        exKube ''c1'' ''h1'' ''new''
          [exPool ''compute'' [exNode ''c1-h1-compute-1'' ''10.0.0.1'' worker]] []
          \<lparr>outputDirectory_field := ''services/kube-eleven/server/clusters/c1-h1''\<rparr>,
        \<lparr>Files = Map.empty,
         Log = [''Cluster c1 does not have any API endpoint specified'']\<rparr>)"
    unfolding u by (simp add: ap rd rm) (simp add: exWorkers_def exKube_def)
  have genf: "generateFiles exTemplateFails
        (exWorkers\<lparr>outputDirectory_field := ''services/kube-eleven/server/clusters/c1-h1''\<rparr>)
        exWorld =
       (Some (Wrapped
             ''error while generating kubeone.yaml from kubeone template : template: unexpected EOF''
             (Failure ''template: unexpected EOF'')),
        exWorkers\<lparr>outputDirectory_field := ''services/kube-eleven/server/clusters/c1-h1''\<rparr>,
        \<lparr>Files = Map.empty,
         Log = [''Cluster c1 does not have any API endpoint specified'']\<rparr>)"
    by (simp add: generateFiles_def generateTemplateData_def getClusterNodes_def
        findAPIEndpoint_def TrimPrefix_def exTemplateFails_def exEnv_def Errorf_w_def
        generatedKubeoneManifestName_def exWorkers_def ex_defs)
  have nm: "clusterName exWorkers = ''c1''" by (simp add: exWorkers_def ex_defs)
  note t' = C5_no_endpoint_is_logged [OF noLB none, of "\<lambda>s. s" exWorld exTemplateFails]
  note v = t' [THEN conjunct2, THEN conjunct2, THEN conjunct2, THEN conjunct2,
      THEN spec, THEN spec, THEN spec, THEN mp,
      unfolded workingDirectory_exWorkers, OF genf, THEN conjunct2]
  have e: "BuildCluster exTemplateFails exWorkers exWorld =
       (Some (Wrapped
          ''error while generating files for c1 : error while generating kubeone.yaml from kubeone template : template: unexpected EOF''
          (Wrapped
             ''error while generating kubeone.yaml from kubeone template : template: unexpected EOF''
             (Failure ''template: unexpected EOF''))),
        exWorkers\<lparr>outputDirectory_field := ''services/kube-eleven/server/clusters/c1-h1''\<rparr>,
        \<lparr>Files = Map.empty,
         Log = [''Cluster c1 does not have any API endpoint specified'']\<rparr>)"
    unfolding v by (simp add: nm Errorf_w_def)
  from a gen c e show ?thesis by (intro conjI)
qed

section \<open>The working directory\<close>









end
